theory Spec2Isabelle
  imports Main "HOL-Library.AList" "HOL-Library.Sublist" "HOL-Library.Multiset"
begin

section \<open>Values of the OAuth adapters (api/libs/oauth.py)\<close>

text \<open>
  The adapters work on what \<^verbatim>\<open>response.json()\<close> returns: Python values built from
  \<^verbatim>\<open>None\<close>, booleans, integers, strings, lists and dicts. A dict is an association
  list in insertion order (its keys are distinct in every parsed body; the functions
  below read the first binding of a key). Strings are lists of characters with code
  points below 256. Numbers with a fractional part are outside the model.
\<close>

datatype json =
    JNull
  | JBool bool
  | JNum int
  | JStr string
  | JList "json list"
  | JDict "(string \<times> json) list"

text \<open>The exceptions the two files can raise, as values.\<close>

datatype error =
    ValueError
  | KeyError
  | TypeError
  | AttributeError
  | JSONDecodeError
  | HTTPError
  | DataError

text \<open>The dataclass \<^verbatim>\<open>OAuthUserInfo\<close>. Python does not check the annotations, so
  \<^verbatim>\<open>name\<close> and \<^verbatim>\<open>email\<close> hold whatever value the provider sent.\<close>

record OAuthUserInfo =
  info_id :: string
  info_name :: json
  info_email :: json

subsection \<open>Python's built-in operations on these values\<close>

text \<open>\<^verbatim>\<open>bool(v)\<close>, as \<^verbatim>\<open>not v\<close> and \<^verbatim>\<open>a or b\<close> use it.\<close>

fun py_truthy :: "json \<Rightarrow> bool" where
  "py_truthy JNull = False"
| "py_truthy (JBool b) = b"
| "py_truthy (JNum n) = (n \<noteq> 0)"
| "py_truthy (JStr s) = (s \<noteq> [])"
| "py_truthy (JList xs) = (xs \<noteq> [])"
| "py_truthy (JDict kvs) = (kvs \<noteq> [])"

text \<open>\<^verbatim>\<open>v == True\<close>: a bool is an int in Python, so \<^verbatim>\<open>1 == True\<close> holds.\<close>

fun py_eq_True :: "json \<Rightarrow> bool" where
  "py_eq_True (JBool b) = b"
| "py_eq_True (JNum n) = (n = 1)"
| "py_eq_True _ = False"

text \<open>\<^verbatim>\<open>v.get(k, default)\<close>: only a dict has the method.\<close>

fun py_get_default :: "json \<Rightarrow> string \<Rightarrow> json \<Rightarrow> error + json" where
  "py_get_default (JDict kvs) k dflt = Inr (case map_of kvs k of None \<Rightarrow> dflt | Some v \<Rightarrow> v)"
| "py_get_default _ k dflt = Inl AttributeError"

text \<open>\<^verbatim>\<open>v.get(k)\<close>: the default is \<^verbatim>\<open>None\<close>.\<close>

definition py_get :: "json \<Rightarrow> string \<Rightarrow> error + json" where
  "py_get v k = py_get_default v k JNull"

text \<open>\<^verbatim>\<open>v[k]\<close> with a string key \<^verbatim>\<open>k\<close>: a dict looks the key up, every other value
  raises \<^verbatim>\<open>TypeError\<close>.\<close>

fun py_subscript :: "json \<Rightarrow> string \<Rightarrow> error + json" where
  "py_subscript (JDict kvs) k = (case map_of kvs k of None \<Rightarrow> Inl KeyError | Some v \<Rightarrow> Inr v)"
| "py_subscript _ k = Inl TypeError"

text \<open>\<^verbatim>\<open>k in v\<close> with a string \<^verbatim>\<open>k\<close>: key of a dict, element of a list, substring of
  a string.\<close>

fun py_in :: "string \<Rightarrow> json \<Rightarrow> error + bool" where
  "py_in k (JDict kvs) = Inr (map_of kvs k \<noteq> None)"
| "py_in k (JList xs) = Inr (JStr k \<in> set xs)"
| "py_in k (JStr s) = Inr (sublist k s)"
| "py_in k _ = Inl TypeError"

text \<open>\<^verbatim>\<open>isinstance(v, dict)\<close>.\<close>

fun is_dict :: "json \<Rightarrow> bool" where
  "is_dict (JDict kvs) = True"
| "is_dict _ = False"

text \<open>\<^verbatim>\<open>for x in v\<close>: the elements of a list, the keys of a dict, the characters of a
  string.\<close>

fun py_iter :: "json \<Rightarrow> error + json list" where
  "py_iter (JList xs) = Inr xs"
| "py_iter (JDict kvs) = Inr (map (\<lambda>kv. JStr (fst kv)) kvs)"
| "py_iter (JStr s) = Inr (map (\<lambda>c. JStr [c]) s)"
| "py_iter _ = Inl TypeError"

subsection \<open>\<^verbatim>\<open>str\<close> and \<^verbatim>\<open>repr\<close>\<close>

fun digits :: "nat \<Rightarrow> string" where
  "digits n = (if n < 10 then [''0123456789'' ! n]
               else digits (n div 10) @ [''0123456789'' ! (n mod 10)])"

declare digits.simps [simp del]

definition str_int :: "int \<Rightarrow> string" where
  "str_int i = (if i < 0 then CHR ''-'' # digits (nat (- i)) else digits (nat i))"

definition hex2 :: "nat \<Rightarrow> string" where
  "hex2 n = [''0123456789abcdef'' ! (n div 16 mod 16), ''0123456789abcdef'' ! (n mod 16)]"

text \<open>One character of \<^verbatim>\<open>repr(s)\<close> inside the quote \<^verbatim>\<open>q\<close>.\<close>

definition repr_char :: "char \<Rightarrow> char \<Rightarrow> string" where
  "repr_char q c =
     (let n = (of_char c :: nat) in
      if c = q \<or> c = CHR 0x5C then [CHR 0x5C, c]
      else if n = 9 then [CHR 0x5C, CHR ''t'']
      else if n = 10 then [CHR 0x5C, CHR ''n'']
      else if n = 13 then [CHR 0x5C, CHR ''r'']
      else if n < 32 \<or> n = 127 \<or> (128 \<le> n \<and> n \<le> 160) \<or> n = 173
        then CHR 0x5C # CHR ''x'' # hex2 n
      else [c])"

text \<open>\<^verbatim>\<open>repr(s)\<close>: double quotes only when the string has a single quote and no double
  quote.\<close>

definition repr_str :: "string \<Rightarrow> string" where
  "repr_str s =
     (let q = (if CHR 0x27 \<in> set s \<and> CHR 0x22 \<notin> set s then CHR 0x22 else CHR 0x27)
      in q # concat (map (repr_char q) s) @ [q])"

text \<open>\<^verbatim>\<open>', '.join(parts)\<close>.\<close>

fun join_comma :: "string list \<Rightarrow> string" where
  "join_comma [] = []"
| "join_comma [p] = p"
| "join_comma (p # ps) = p @ '', '' @ join_comma ps"

fun py_repr :: "json \<Rightarrow> string"
  and py_repr_elems :: "json list \<Rightarrow> string list"
  and py_repr_items :: "(string \<times> json) list \<Rightarrow> string list" where
  "py_repr JNull = ''None''"
| "py_repr (JBool b) = (if b then ''True'' else ''False'')"
| "py_repr (JNum n) = str_int n"
| "py_repr (JStr s) = repr_str s"
| "py_repr (JList xs) = ''['' @ join_comma (py_repr_elems xs) @ '']''"
| "py_repr (JDict kvs) = ''{'' @ join_comma (py_repr_items kvs) @ ''}''"
| "py_repr_elems [] = []"
| "py_repr_elems (x # xs) = py_repr x # py_repr_elems xs"
| "py_repr_items [] = []"
| "py_repr_items (kv # kvs) = (repr_str (fst kv) @ '': '' @ py_repr (snd kv)) # py_repr_items kvs"

text \<open>\<^verbatim>\<open>str(v)\<close>, which is also what an f-string field \<^verbatim>\<open>{v}\<close> inserts: a string is
  itself, every other value is its \<^verbatim>\<open>repr\<close>.\<close>

fun py_str :: "json \<Rightarrow> string" where
  "py_str (JStr s) = s"
| "py_str v = py_repr v"

subsection \<open>HTTP responses\<close>

text \<open>
  What \<^verbatim>\<open>requests.get\<close> and \<^verbatim>\<open>requests.post\<close> hand back: the status code and the
  body, \<^verbatim>\<open>None\<close> when the body is not JSON. Every adapter function below takes the
  responses of the requests it makes as arguments, in the order it makes them.
\<close>

record response =
  status_code :: int
  body :: "json option"

text \<open>\<^verbatim>\<open>response.json()\<close>.\<close>

definition response_json :: "response \<Rightarrow> error + json" where
  "response_json r = (case body r of None \<Rightarrow> Inl JSONDecodeError | Some v \<Rightarrow> Inr v)"

text \<open>\<^verbatim>\<open>response.raise_for_status()\<close> of the requests library: a 4xx or 5xx status
  raises.\<close>

definition raise_for_status :: "response \<Rightarrow> error + unit" where
  "raise_for_status r =
     (if 400 \<le> status_code r \<and> status_code r < 600 then Inl HTTPError else Inr ())"

section \<open>GitHubOAuth\<close>

definition GitHubOAuth_get_access_token :: "response \<Rightarrow> error + json" where
  "GitHubOAuth_get_access_token resp =
     (case response_json resp of Inl e \<Rightarrow> Inl e | Inr rj \<Rightarrow>
      (case py_get rj ''access_token'' of Inl e \<Rightarrow> Inl e | Inr access_token \<Rightarrow>
       if \<not> py_truthy access_token then Inl ValueError else Inr access_token))"

text \<open>\<^verbatim>\<open>next((email for email in email_info if email["primary"] == True), {})\<close>: the
  generator is lazy, so a record after the first primary one is never looked at.\<close>

fun first_primary :: "json list \<Rightarrow> error + json" where
  "first_primary [] = Inr (JDict [])"
| "first_primary (email # rest) =
     (case py_subscript email ''primary'' of Inl e \<Rightarrow> Inl e | Inr p \<Rightarrow>
      if py_eq_True p then Inr email else first_primary rest)"

text \<open>\<^verbatim>\<open>{**user_info, "email": v}\<close>: only a mapping can be unpacked; the key keeps its
  place when it is already there.\<close>

fun merge_email :: "json \<Rightarrow> json \<Rightarrow> error + json" where
  "merge_email (JDict kvs) v = Inr (JDict (AList.update ''email'' v kvs))"
| "merge_email _ v = Inl TypeError"

text \<open>The first argument is the response of \<^verbatim>\<open>/user\<close>, the second that of
  \<^verbatim>\<open>/user/emails\<close>.\<close>

definition GitHubOAuth_get_raw_user_info :: "response \<Rightarrow> response \<Rightarrow> error + json" where
  "GitHubOAuth_get_raw_user_info resp email_response =
     (case raise_for_status resp of Inl e \<Rightarrow> Inl e | Inr u \<Rightarrow>
      (case response_json resp of Inl e \<Rightarrow> Inl e | Inr user_info \<Rightarrow>
       (case response_json email_response of Inl e \<Rightarrow> Inl e | Inr email_info \<Rightarrow>
        (case py_iter email_info of Inl e \<Rightarrow> Inl e | Inr emails \<Rightarrow>
         (case first_primary emails of Inl e \<Rightarrow> Inl e | Inr primary_email \<Rightarrow>
          (case py_get_default primary_email ''email'' (JStr []) of Inl e \<Rightarrow> Inl e | Inr v \<Rightarrow>
           merge_email user_info v))))))"

definition GitHubOAuth_transform_user_info :: "json \<Rightarrow> error + OAuthUserInfo" where
  "GitHubOAuth_transform_user_info raw_info =
     (case py_get raw_info ''email'' of Inl e \<Rightarrow> Inl e | Inr email0 \<Rightarrow>
      (case (if \<not> py_truthy email0
             then (case py_subscript raw_info ''id'' of Inl e \<Rightarrow> Inl e | Inr i \<Rightarrow>
                   (case py_subscript raw_info ''login'' of Inl e \<Rightarrow> Inl e | Inr l \<Rightarrow>
                    Inr (JStr (py_str i @ ''+'' @ py_str l @ ''@users.noreply.github.com''))))
             else Inr email0) of Inl e \<Rightarrow> Inl e | Inr email1 \<Rightarrow>
       (case py_subscript raw_info ''id'' of Inl e \<Rightarrow> Inl e | Inr i \<Rightarrow>
        (case py_subscript raw_info ''name'' of Inl e \<Rightarrow> Inl e | Inr n \<Rightarrow>
         Inr \<lparr>info_id = py_str i, info_name = n, info_email = email1\<rparr>))))"

text \<open>\<^verbatim>\<open>OAuth.get_user_info\<close> on a GitHubOAuth.\<close>

definition GitHubOAuth_get_user_info :: "response \<Rightarrow> response \<Rightarrow> error + OAuthUserInfo" where
  "GitHubOAuth_get_user_info resp email_response =
     (case GitHubOAuth_get_raw_user_info resp email_response of Inl e \<Rightarrow> Inl e
      | Inr raw_info \<Rightarrow> GitHubOAuth_transform_user_info raw_info)"

section \<open>GoogleOAuth\<close>

definition GoogleOAuth_get_access_token :: "response \<Rightarrow> error + json" where
  "GoogleOAuth_get_access_token resp =
     (case response_json resp of Inl e \<Rightarrow> Inl e | Inr rj \<Rightarrow>
      (case py_get rj ''access_token'' of Inl e \<Rightarrow> Inl e | Inr access_token \<Rightarrow>
       if \<not> py_truthy access_token then Inl ValueError else Inr access_token))"

definition GoogleOAuth_get_raw_user_info :: "response \<Rightarrow> error + json" where
  "GoogleOAuth_get_raw_user_info resp =
     (case raise_for_status resp of Inl e \<Rightarrow> Inl e | Inr u \<Rightarrow> response_json resp)"

definition GoogleOAuth_transform_user_info :: "json \<Rightarrow> error + OAuthUserInfo" where
  "GoogleOAuth_transform_user_info raw_info =
     (case py_subscript raw_info ''sub'' of Inl e \<Rightarrow> Inl e | Inr s \<Rightarrow>
      (case py_subscript raw_info ''email'' of Inl e \<Rightarrow> Inl e | Inr m \<Rightarrow>
       Inr \<lparr>info_id = py_str s, info_name = JStr [], info_email = m\<rparr>))"

section \<open>AILabOAuth\<close>

text \<open>\<^verbatim>\<open>"data" in response_json and isinstance(response_json["data"], dict)\<close>.\<close>

definition has_dict_data :: "json \<Rightarrow> error + bool" where
  "has_dict_data rj =
     (case py_in ''data'' rj of Inl e \<Rightarrow> Inl e | Inr present \<Rightarrow>
      if present
      then (case py_subscript rj ''data'' of Inl e \<Rightarrow> Inl e | Inr d \<Rightarrow> Inr (is_dict d))
      else Inr False)"

definition AILabOAuth_get_access_token :: "response \<Rightarrow> error + json" where
  "AILabOAuth_get_access_token resp =
     (case response_json resp of Inl e \<Rightarrow> Inl e | Inr rj \<Rightarrow>
      (case has_dict_data rj of Inl e \<Rightarrow> Inl e | Inr wrapped \<Rightarrow>
       (case (if wrapped
              then (case py_subscript rj ''data'' of Inl e \<Rightarrow> Inl e
                    | Inr d \<Rightarrow> py_get d ''access_token'')
              else py_get rj ''access_token'') of Inl e \<Rightarrow> Inl e | Inr access_token \<Rightarrow>
        if \<not> py_truthy access_token then Inl ValueError else Inr access_token)))"

definition AILabOAuth_get_raw_user_info :: "response \<Rightarrow> error + json" where
  "AILabOAuth_get_raw_user_info resp =
     (if status_code resp \<noteq> 200 then Inl ValueError
      else
       (case response_json resp of Inl e \<Rightarrow> Inl e | Inr rj \<Rightarrow>
        (case has_dict_data rj of Inl e \<Rightarrow> Inl e | Inr wrapped \<Rightarrow>
         if wrapped then py_subscript rj ''data'' else Inr rj)))"

definition AILabOAuth_transform_user_info :: "json \<Rightarrow> error + OAuthUserInfo" where
  "AILabOAuth_transform_user_info raw_info =
     (case py_get_default raw_info ''userId'' (JStr []) of Inl e \<Rightarrow> Inl e | Inr uid \<Rightarrow>
      (case py_get_default raw_info ''username'' (JStr []) of Inl e \<Rightarrow> Inl e | Inr user_name \<Rightarrow>
       (case py_get_default raw_info ''displayName'' (JStr []) of Inl e \<Rightarrow> Inl e | Inr display_name \<Rightarrow>
        (case py_get_default raw_info ''email'' (JStr []) of Inl e \<Rightarrow> Inl e | Inr email0 \<Rightarrow>
         Inr \<lparr>info_id = py_str uid,
              info_name = (if py_truthy display_name then display_name else user_name),
              info_email = (if \<not> py_truthy email0
                            then JStr (py_str user_name @ ''@example.com'')
                            else email0)\<rparr>))))"

section \<open>The lookup endpoints (api/controllers/console/workspace/user_email_resources.py)\<close>

subsection \<open>Tables\<close>

text \<open>
  Modelled from the spec: the ORM classes \<^verbatim>\<open>Account\<close>, \<^verbatim>\<open>TenantAccountJoin\<close>,
  \<^verbatim>\<open>Dataset\<close>, \<^verbatim>\<open>DatasetPermission\<close>, \<^verbatim>\<open>App\<close> and \<^verbatim>\<open>InstalledApp\<close> are declared
  in \<^verbatim>\<open>models\<close>, which the two files only import. Each record has the columns the
  handlers read; the columns that are only listed in the field projections play no
  part in selecting or ordering rows. Identifiers are UUID strings, \<^verbatim>\<open>created_at\<close> is
  a timestamp.
\<close>

record Account =
  account_id :: string
  account_email :: string

record TenantAccountJoin =
  join_tenant_id :: string
  join_account_id :: string
  join_current :: bool

text \<open>
  Modelled from the spec: the enum \<^verbatim>\<open>DatasetPermissionEnum\<close> of \<^verbatim>\<open>models.dataset\<close>,
  with the three permission modes the spec names: owner-only (the default), all-team
  and partial-team.
\<close>

datatype DatasetPermissionEnum = ONLY_ME | ALL_TEAM | PARTIAL_TEAM

record Dataset =
  dataset_id :: string
  dataset_tenant_id :: string
  dataset_created_by :: string
  dataset_permission :: DatasetPermissionEnum
  dataset_created_at :: int

record DatasetPermission =
  perm_dataset_id :: string
  perm_account_id :: string
  perm_has_permission :: bool

record App =
  app_id :: string
  app_tenant_id :: string
  app_created_by :: string
  app_is_public :: bool
  app_created_at :: int

record InstalledApp =
  installed_tenant_id :: string
  installed_app_id :: string

text \<open>What \<^verbatim>\<open>db.session\<close> reads: each table as the list of its rows, in the order the
  database returns them.\<close>

record database =
  Accounts :: "Account list"
  TenantAccountJoins :: "TenantAccountJoin list"
  Datasets :: "Dataset list"
  DatasetPermissions :: "DatasetPermission list"
  Apps :: "App list"
  InstalledApps :: "InstalledApp list"

text \<open>The dict both handlers return, before \<^verbatim>\<open>marshal_with\<close> projects the rows.\<close>

record 'row page_response =
  resp_data :: "'row list"
  resp_has_more :: bool
  resp_total :: int
  resp_page :: int
  resp_limit :: int

subsection \<open>Queries\<close>

text \<open>\<^verbatim>\<open>query.order_by(created_at.desc())\<close>. \<^verbatim>\<open>ORDER BY\<close> promises no order among rows
  with equal timestamps; here they keep their table order, and the properties below
  use only that the result is a rearrangement of the rows with the timestamps
  descending.\<close>

definition order_by_created_at_desc :: "('row \<Rightarrow> int) \<Rightarrow> 'row list \<Rightarrow> 'row list" where
  "order_by_created_at_desc created_at rows = sort_key (\<lambda>r. - created_at r) rows"

text \<open>\<^verbatim>\<open>query.offset(offset).limit(limit).all()\<close>: the SQL engine skips \<^verbatim>\<open>offset\<close> rows
  and returns at most \<^verbatim>\<open>limit\<close>. Both values reach PostgreSQL as they are:
  it rejects a negative \<^verbatim>\<open>OFFSET\<close> or \<^verbatim>\<open>LIMIT\<close>, and one that does not fit its 64-bit
  \<^verbatim>\<open>bigint\<close>, and SQLAlchemy raises either as an exception.\<close>

definition offset_limit_all :: "int \<Rightarrow> int \<Rightarrow> 'row list \<Rightarrow> error + 'row list" where
  "offset_limit_all offset limit rows =
     (if offset < 0 \<or> limit < 0 \<or> 2 ^ 63 \<le> offset \<or> 2 ^ 63 \<le> limit then Inl DataError
      else Inr (take (nat limit) (drop (nat offset) rows)))"

text \<open>Line 54 and line 178: \<^verbatim>\<open>query(Account).filter(Account.email == email).first()\<close>.\<close>

definition find_account :: "database \<Rightarrow> string \<Rightarrow> Account option" where
  "find_account db email = find (\<lambda>a. account_email a = email) (Accounts db)"

text \<open>Lines 68 to 77 and 192 to 201, the same in both handlers: the join row flagged
  current first, any join row of the account otherwise.\<close>

definition resolve_tenant :: "database \<Rightarrow> Account \<Rightarrow> TenantAccountJoin option" where
  "resolve_tenant db account =
     (let tenant_account =
            find (\<lambda>j. join_account_id j = account_id account \<and> join_current j = True)
              (TenantAccountJoins db)
      in if tenant_account = None
         then find (\<lambda>j. join_account_id j = account_id account) (TenantAccountJoins db)
         else tenant_account)"

text \<open>Lines 91 to 109: the filter over \<^verbatim>\<open>Dataset\<close>, with its subquery on
  \<^verbatim>\<open>DatasetPermission\<close>.\<close>

definition datasets_query :: "database \<Rightarrow> Account \<Rightarrow> TenantAccountJoin \<Rightarrow> Dataset list" where
  "datasets_query db account tenant_account =
     filter
       (\<lambda>d. dataset_tenant_id d = join_tenant_id tenant_account \<and>
            (dataset_created_by d = account_id account \<or>
             dataset_permission d = ALL_TEAM \<or>
             (dataset_permission d = PARTIAL_TEAM \<and>
              dataset_id d \<in> set (map perm_dataset_id
                (filter (\<lambda>p. perm_account_id p = account_id account \<and>
                              perm_has_permission p = True)
                   (DatasetPermissions db))))))
       (Datasets db)"

text \<open>Lines 215 to 240: the base query over \<^verbatim>\<open>App\<close>, the installed app ids of the
  tenant, and the two filters.\<close>

definition apps_query :: "database \<Rightarrow> Account \<Rightarrow> TenantAccountJoin \<Rightarrow> App list" where
  "apps_query db account tenant_account =
     (let base_query = filter (\<lambda>a. app_tenant_id a = join_tenant_id tenant_account) (Apps db);
          installed_app_ids =
            map installed_app_id
              (filter (\<lambda>i. installed_tenant_id i = join_tenant_id tenant_account)
                 (InstalledApps db))
      in if installed_app_ids \<noteq> []
         then filter (\<lambda>a. app_created_by a = account_id account \<or>
                          app_is_public a = True \<or>
                          app_id a \<in> set installed_app_ids) base_query
         else filter (\<lambda>a. app_created_by a = account_id account \<or>
                          app_is_public a = True) base_query)"

subsection \<open>The handlers\<close>

definition empty_page :: "int \<Rightarrow> int \<Rightarrow> 'row page_response" where
  "empty_page page limit =
     \<lparr>resp_data = [], resp_has_more = False, resp_total = 0,
      resp_page = page, resp_limit = limit\<rparr>"

definition EmailDatasetsApi_get ::
    "database \<Rightarrow> string \<Rightarrow> int \<Rightarrow> int \<Rightarrow> error + Dataset page_response" where
  "EmailDatasetsApi_get db email page limit =
     (let offset = (page - 1) * limit in
      case find_account db email of
        None \<Rightarrow> Inr (empty_page page limit)
      | Some account \<Rightarrow>
         (case resolve_tenant db account of
            None \<Rightarrow> Inr (empty_page page limit)
          | Some tenant_account \<Rightarrow>
             (let query = datasets_query db account tenant_account;
                  total = int (length query)
              in case offset_limit_all offset limit
                        (order_by_created_at_desc dataset_created_at query) of
                   Inl e \<Rightarrow> Inl e
                 | Inr datasets \<Rightarrow>
                     Inr \<lparr>resp_data = datasets, resp_has_more = (offset + limit < total),
                          resp_total = total, resp_page = page, resp_limit = limit\<rparr>)))"

definition EmailAppsApi_get ::
    "database \<Rightarrow> string \<Rightarrow> int \<Rightarrow> int \<Rightarrow> error + App page_response" where
  "EmailAppsApi_get db email page limit =
     (let offset = (page - 1) * limit in
      case find_account db email of
        None \<Rightarrow> Inr (empty_page page limit)
      | Some account \<Rightarrow>
         (case resolve_tenant db account of
            None \<Rightarrow> Inr (empty_page page limit)
          | Some tenant_account \<Rightarrow>
             (let query = apps_query db account tenant_account;
                  total = int (length query)
              in case offset_limit_all offset limit
                        (order_by_created_at_desc app_created_at query) of
                   Inl e \<Rightarrow> Inl e
                 | Inr apps \<Rightarrow>
                     Inr \<lparr>resp_data = apps, resp_has_more = (offset + limit < total),
                          resp_total = total, resp_page = page, resp_limit = limit\<rparr>)))"

section \<open>Example data\<close>

text \<open>Alice belongs to two tenants and \<^verbatim>\<open>t1\<close> is her current one; Bob has an account and
  no tenant.\<close>

definition alice :: Account where
  "alice = \<lparr>account_id = ''a1'', account_email = ''alice@example.com''\<rparr>"

definition bob :: Account where
  "bob = \<lparr>account_id = ''a2'', account_email = ''bob@example.com''\<rparr>"

definition alice_t0 :: TenantAccountJoin where
  "alice_t0 = \<lparr>join_tenant_id = ''t0'', join_account_id = ''a1'', join_current = False\<rparr>"

definition alice_t1 :: TenantAccountJoin where
  "alice_t1 = \<lparr>join_tenant_id = ''t1'', join_account_id = ''a1'', join_current = True\<rparr>"

definition dataset_row ::
    "string \<Rightarrow> string \<Rightarrow> string \<Rightarrow> DatasetPermissionEnum \<Rightarrow> int \<Rightarrow> Dataset" where
  "dataset_row i t c p ts =
     \<lparr>dataset_id = i, dataset_tenant_id = t, dataset_created_by = c,
      dataset_permission = p, dataset_created_at = ts\<rparr>"

definition app_row :: "string \<Rightarrow> string \<Rightarrow> string \<Rightarrow> bool \<Rightarrow> int \<Rightarrow> App" where
  "app_row i t c p ts =
     \<lparr>app_id = i, app_tenant_id = t, app_created_by = c,
      app_is_public = p, app_created_at = ts\<rparr>"

definition example_db :: database where
  "example_db =
     \<lparr>Accounts = [alice, bob],
      TenantAccountJoins = [alice_t0, alice_t1],
      Datasets =
        [dataset_row ''d1'' ''t1'' ''a1'' ONLY_ME 10,
         dataset_row ''d2'' ''t1'' ''a2'' PARTIAL_TEAM 20,
         dataset_row ''d3'' ''t1'' ''a2'' PARTIAL_TEAM 30,
         dataset_row ''d4'' ''t1'' ''a2'' ALL_TEAM 40,
         dataset_row ''d5'' ''t1'' ''a2'' ONLY_ME 50,
         dataset_row ''d6'' ''t0'' ''a1'' ALL_TEAM 60],
      DatasetPermissions =
        [\<lparr>perm_dataset_id = ''d2'', perm_account_id = ''a1'', perm_has_permission = True\<rparr>,
         \<lparr>perm_dataset_id = ''d3'', perm_account_id = ''a1'', perm_has_permission = False\<rparr>],
      Apps =
        [app_row ''p1'' ''t1'' ''a1'' False 10,
         app_row ''p2'' ''t1'' ''a2'' True 20,
         app_row ''p3'' ''t1'' ''a2'' False 30,
         app_row ''p4'' ''t1'' ''a2'' False 40],
      InstalledApps = [\<lparr>installed_tenant_id = ''t1'', installed_app_id = ''p3''\<rparr>]\<rparr>"

text \<open>One member-shared dataset that Alice created herself, with a negative grant row
  for her.\<close>

definition owner_db :: database where
  "owner_db =
     \<lparr>Accounts = [alice],
      TenantAccountJoins = [alice_t1],
      Datasets = [dataset_row ''d1'' ''t1'' ''a1'' PARTIAL_TEAM 10],
      DatasetPermissions =
        [\<lparr>perm_dataset_id = ''d1'', perm_account_id = ''a1'', perm_has_permission = False\<rparr>],
      Apps = [],
      InstalledApps = []\<rparr>"

text \<open>Forty-five datasets and forty-five apps, all Alice's.\<close>

definition paging_db :: database where
  "paging_db =
     \<lparr>Accounts = [alice],
      TenantAccountJoins = [alice_t1],
      Datasets = map (\<lambda>i. dataset_row (digits i) ''t1'' ''a1'' ONLY_ME (int i)) [0..<45],
      DatasetPermissions = [],
      Apps = map (\<lambda>i. app_row (digits i) ''t1'' ''a1'' False (int i)) [0..<45],
      InstalledApps = []\<rparr>"

text \<open>A \<^verbatim>\<open>/user\<close> body of GitHub.\<close>

definition octocat :: "(string \<times> json) list" where
  "octocat = [(''login'', JStr ''octocat''), (''id'', JNum 583231), (''name'', JNull),
              (''email'', JStr ''public@example.com'')]"

lemmas ex_defs = example_db_def alice_def bob_def alice_t0_def alice_t1_def
  dataset_row_def app_row_def

lemma ex_find: "find_account example_db ''alice@example.com'' = Some alice"
  by (simp add: find_account_def ex_defs)

lemma ex_resolve: "resolve_tenant example_db alice = Some alice_t1"
  by (simp add: resolve_tenant_def ex_defs)

section \<open>Properties of the lookup endpoints\<close>

subsection \<open>The page window and the two queries\<close>

lemma offset_limit_all_ok:
  "0 \<le> offset \<Longrightarrow> offset < 2 ^ 63 \<Longrightarrow> 0 \<le> limit \<Longrightarrow> limit < 2 ^ 63 \<Longrightarrow>
   offset_limit_all offset limit rows = Inr (take (nat limit) (drop (nat offset) rows))"
  by (simp add: offset_limit_all_def)

lemma offset_limit_all_subset:
  "offset_limit_all offset limit rows = Inr window \<Longrightarrow> set window \<subseteq> set rows"
  using set_take_subset [of "nat limit" "drop (nat offset) rows"] set_drop_subset [of "nat offset" rows]
  by (auto simp: offset_limit_all_def split: if_splits)

lemma offset_nonneg: "1 \<le> page \<Longrightarrow> 0 \<le> limit \<Longrightarrow> 0 \<le> (page - 1) * (limit::int)"
  by simp

lemma order_by_created_at_desc_sorted:
  "mset (order_by_created_at_desc created_at rows) = mset rows \<and>
   sorted_wrt (\<lambda>x y. created_at y \<le> created_at x) (order_by_created_at_desc created_at rows)"
proof -
  have "sorted (map (\<lambda>r. - created_at r) (sort_key (\<lambda>r. - created_at r) rows))"
    by (rule sorted_sort_key)
  then have "sorted_wrt (\<lambda>x y. created_at y \<le> created_at x) (sort_key (\<lambda>r. - created_at r) rows)"
    by (simp add: sorted_wrt_map)
  then show ?thesis
    by (simp add: order_by_created_at_desc_def)
qed

lemma set_order_by_created_at_desc:
  "set (order_by_created_at_desc created_at rows) = set rows"
  by (simp add: order_by_created_at_desc_def)

lemma EmailDatasetsApi_get_found:
  assumes "find_account db email = Some a" and "resolve_tenant db a = Some j"
    and "1 \<le> page" and "0 \<le> limit" and "limit < 2 ^ 63" and "(page - 1) * limit < 2 ^ 63"
  shows "EmailDatasetsApi_get db email page limit =
     Inr \<lparr>resp_data = take (nat limit) (drop (nat ((page - 1) * limit))
              (order_by_created_at_desc dataset_created_at (datasets_query db a j))),
          resp_has_more = ((page - 1) * limit + limit < int (length (datasets_query db a j))),
          resp_total = int (length (datasets_query db a j)),
          resp_page = page, resp_limit = limit\<rparr>"
  using assms offset_nonneg [of page limit]
  by (simp add: EmailDatasetsApi_get_def Let_def offset_limit_all_ok)

lemma EmailDatasetsApi_get_page:
  assumes "find_account db email = Some a" and "resolve_tenant db a = Some j"
    and "1 \<le> page" and "0 \<le> limit" and "limit < 2 ^ 63" and "(page - 1) * limit < 2 ^ 63"
  shows "\<exists>ordered. mset ordered = mset (datasets_query db a j) \<and>
       sorted_wrt (\<lambda>x y. dataset_created_at y \<le> dataset_created_at x) ordered \<and>
       EmailDatasetsApi_get db email page limit =
         Inr \<lparr>resp_data = take (nat limit) (drop (nat ((page - 1) * limit)) ordered),
              resp_has_more = ((page - 1) * limit + limit < int (length (datasets_query db a j))),
              resp_total = int (length (datasets_query db a j)),
              resp_page = page, resp_limit = limit\<rparr>"
  using EmailDatasetsApi_get_found [OF assms] order_by_created_at_desc_sorted [of dataset_created_at "datasets_query db a j"]
  by blast

lemma EmailDatasetsApi_get_all_rows:
  assumes "find_account db email = Some a" and "resolve_tenant db a = Some j"
    and "int (length (datasets_query db a j)) \<le> limit" and "limit < 2 ^ 63"
  shows "\<exists>r. EmailDatasetsApi_get db email 1 limit = Inr r \<and>
             set (resp_data r) = set (datasets_query db a j) \<and>
             resp_total r = int (length (datasets_query db a j))"
proof -
  from assms(3) have nonneg: "0 \<le> limit"
    by linarith
  have window: "(1 - 1) * limit < 2 ^ 63"
    by simp
  have one: "(1::int) \<le> 1"
    by simp
  from assms(3) have all: "take (nat limit) (order_by_created_at_desc dataset_created_at (datasets_query db a j)) =
      order_by_created_at_desc dataset_created_at (datasets_query db a j)"
    by (simp add: order_by_created_at_desc_def)
  show ?thesis
    using EmailDatasetsApi_get_found [OF assms(1,2) one nonneg assms(4) window] all
    by (simp add: set_order_by_created_at_desc)
qed

lemma EmailDatasetsApi_get_data_subset:
  assumes "find_account db email = Some a" and "resolve_tenant db a = Some j"
    and "EmailDatasetsApi_get db email page limit = Inr r"
  shows "set (resp_data r) \<subseteq> set (datasets_query db a j)"
proof (cases "offset_limit_all ((page - 1) * limit) limit
    (order_by_created_at_desc dataset_created_at (datasets_query db a j))")
  case (Inl e)
  with assms show ?thesis
    by (simp add: EmailDatasetsApi_get_def Let_def)
next
  case (Inr window)
  then have "set window \<subseteq> set (datasets_query db a j)"
    using offset_limit_all_subset [OF Inr] by (simp add: set_order_by_created_at_desc)
  with assms Inr show ?thesis
    by (auto simp: EmailDatasetsApi_get_def Let_def)
qed

lemma EmailAppsApi_get_found:
  assumes "find_account db email = Some a" and "resolve_tenant db a = Some j"
    and "1 \<le> page" and "0 \<le> limit" and "limit < 2 ^ 63" and "(page - 1) * limit < 2 ^ 63"
  shows "EmailAppsApi_get db email page limit =
     Inr \<lparr>resp_data = take (nat limit) (drop (nat ((page - 1) * limit))
              (order_by_created_at_desc app_created_at (apps_query db a j))),
          resp_has_more = ((page - 1) * limit + limit < int (length (apps_query db a j))),
          resp_total = int (length (apps_query db a j)),
          resp_page = page, resp_limit = limit\<rparr>"
  using assms offset_nonneg [of page limit]
  by (simp add: EmailAppsApi_get_def Let_def offset_limit_all_ok)

lemma EmailAppsApi_get_page:
  assumes "find_account db email = Some a" and "resolve_tenant db a = Some j"
    and "1 \<le> page" and "0 \<le> limit" and "limit < 2 ^ 63" and "(page - 1) * limit < 2 ^ 63"
  shows "\<exists>ordered. mset ordered = mset (apps_query db a j) \<and>
       sorted_wrt (\<lambda>x y. app_created_at y \<le> app_created_at x) ordered \<and>
       EmailAppsApi_get db email page limit =
         Inr \<lparr>resp_data = take (nat limit) (drop (nat ((page - 1) * limit)) ordered),
              resp_has_more = ((page - 1) * limit + limit < int (length (apps_query db a j))),
              resp_total = int (length (apps_query db a j)),
              resp_page = page, resp_limit = limit\<rparr>"
  using EmailAppsApi_get_found [OF assms] order_by_created_at_desc_sorted [of app_created_at "apps_query db a j"]
  by blast

lemma EmailAppsApi_get_all_rows:
  assumes "find_account db email = Some a" and "resolve_tenant db a = Some j"
    and "int (length (apps_query db a j)) \<le> limit" and "limit < 2 ^ 63"
  shows "\<exists>r. EmailAppsApi_get db email 1 limit = Inr r \<and>
             set (resp_data r) = set (apps_query db a j) \<and>
             resp_total r = int (length (apps_query db a j))"
proof -
  from assms(3) have nonneg: "0 \<le> limit"
    by linarith
  have window: "(1 - 1) * limit < 2 ^ 63"
    by simp
  have one: "(1::int) \<le> 1"
    by simp
  from assms(3) have all: "take (nat limit) (order_by_created_at_desc app_created_at (apps_query db a j)) =
      order_by_created_at_desc app_created_at (apps_query db a j)"
    by (simp add: order_by_created_at_desc_def)
  show ?thesis
    using EmailAppsApi_get_found [OF assms(1,2) one nonneg assms(4) window] all
    by (simp add: set_order_by_created_at_desc)
qed

lemma EmailAppsApi_get_data_subset:
  assumes "find_account db email = Some a" and "resolve_tenant db a = Some j"
    and "EmailAppsApi_get db email page limit = Inr r"
  shows "set (resp_data r) \<subseteq> set (apps_query db a j)"
proof (cases "offset_limit_all ((page - 1) * limit) limit
    (order_by_created_at_desc app_created_at (apps_query db a j))")
  case (Inl e)
  with assms show ?thesis
    by (simp add: EmailAppsApi_get_def Let_def)
next
  case (Inr window)
  then have "set window \<subseteq> set (apps_query db a j)"
    using offset_limit_all_subset [OF Inr] by (simp add: set_order_by_created_at_desc)
  with assms Inr show ?thesis
    by (auto simp: EmailAppsApi_get_def Let_def)
qed

lemma datasets_query_filter:
  "datasets_query db a j =
     filter (\<lambda>d. dataset_tenant_id d = join_tenant_id j \<and>
                 (dataset_created_by d = account_id a \<or>
                  dataset_permission d = ALL_TEAM \<or>
                  (dataset_permission d = PARTIAL_TEAM \<and>
                   (\<exists>p\<in>set (DatasetPermissions db).
                      perm_dataset_id p = dataset_id d \<and> perm_account_id p = account_id a \<and>
                      perm_has_permission p))))
       (Datasets db)"
  unfolding datasets_query_def
  by (rule filter_cong) (auto simp: image_iff)

lemma apps_query_filter:
  "apps_query db a j =
     filter (\<lambda>p. app_tenant_id p = join_tenant_id j \<and>
                 (app_created_by p = account_id a \<or> app_is_public p \<or>
                  (\<exists>i\<in>set (InstalledApps db).
                     installed_tenant_id i = join_tenant_id j \<and> installed_app_id i = app_id p)))
       (Apps db)"
proof (cases "filter (\<lambda>i. installed_tenant_id i = join_tenant_id j) (InstalledApps db) = []")
  case True
  then have "\<forall>i\<in>set (InstalledApps db). installed_tenant_id i \<noteq> join_tenant_id j"
    by (simp add: filter_empty_conv)
  then show ?thesis
    using True by (auto simp: apps_query_def Let_def intro!: filter_cong)
next
  case False
  then show ?thesis
    by (auto simp: apps_query_def Let_def image_iff intro!: filter_cong)
qed

subsection \<open>Dataset visibility\<close>

text \<open>
  A member-shared dataset whose only grant row for the account is negative is still
  listed when the account created it: the creator disjunct of the filter does not look
  at the permission mode.
\<close>

theorem dataset_visibility_counterexample:
  "find_account owner_db ''alice@example.com'' = Some alice \<and>
   resolve_tenant owner_db alice = Some alice_t1 \<and>
   Datasets owner_db = [dataset_row ''d1'' ''t1'' ''a1'' PARTIAL_TEAM 10] \<and>
   DatasetPermissions owner_db =
     [\<lparr>perm_dataset_id = ''d1'', perm_account_id = ''a1'', perm_has_permission = False\<rparr>] \<and>
   datasets_query owner_db alice alice_t1 = [dataset_row ''d1'' ''t1'' ''a1'' PARTIAL_TEAM 10] \<and>
   EmailDatasetsApi_get owner_db ''alice@example.com'' 1 20 =
     Inr \<lparr>resp_data = [dataset_row ''d1'' ''t1'' ''a1'' PARTIAL_TEAM 10], resp_has_more = False,
          resp_total = 1, resp_page = 1, resp_limit = 20\<rparr>"
  by (simp add: EmailDatasetsApi_get_def find_account_def resolve_tenant_def datasets_query_def
      offset_limit_all_def order_by_created_at_desc_def owner_db_def ex_defs)

text \<open>
  Claim C1, amended. For the account \<open>a\<close> and the tenant join \<open>j\<close> that
  \<^verbatim>\<open>EmailDatasetsApi.get\<close> resolves, a dataset is in the query result if and only if it
  is a row of the tenant and it was created by the account, or its permission is
  \<^verbatim>\<open>ALL_TEAM\<close>, or its permission is \<^verbatim>\<open>PARTIAL_TEAM\<close> and some \<^verbatim>\<open>DatasetPermission\<close> row
  for that dataset and account has \<^verbatim>\<open>has_permission\<close> true; the result holds each such
  row of the table once. For a page of at least 1 and
  a limit and an offset from 0 to below \<open>2 ^ 63\<close> the handler returns the length of that
  result as \<^verbatim>\<open>total\<close> and, as \<^verbatim>\<open>data\<close>, the page window of the result in descending
  \<^verbatim>\<open>created_at\<close> order; on page 1 with a limit that covers the result, \<^verbatim>\<open>data\<close> holds
  exactly the rows of the result. In particular a \<^verbatim>\<open>PARTIAL_TEAM\<close> dataset that the account
  did not create and whose grant rows for the account all have \<^verbatim>\<open>has_permission\<close> false
  is not in the result and on no page the handler returns.
\<close>

theorem dataset_visibility:
  assumes "find_account db email = Some a" and "resolve_tenant db a = Some j"
  shows "(\<forall>d. d \<in> set (datasets_query db a j) \<longleftrightarrow>
            d \<in> set (Datasets db) \<and> dataset_tenant_id d = join_tenant_id j \<and>
            (dataset_created_by d = account_id a \<or>
             dataset_permission d = ALL_TEAM \<or>
             (dataset_permission d = PARTIAL_TEAM \<and>
              (\<exists>p\<in>set (DatasetPermissions db).
                 perm_dataset_id p = dataset_id d \<and> perm_account_id p = account_id a \<and>
                 perm_has_permission p)))) \<and>
         (datasets_query db a j =
            filter (\<lambda>d. dataset_tenant_id d = join_tenant_id j \<and>
                 (dataset_created_by d = account_id a \<or>
                  dataset_permission d = ALL_TEAM \<or>
                  (dataset_permission d = PARTIAL_TEAM \<and>
                   (\<exists>p\<in>set (DatasetPermissions db).
                      perm_dataset_id p = dataset_id d \<and> perm_account_id p = account_id a \<and>
                      perm_has_permission p))))
              (Datasets db)) \<and>
         (1 \<le> page \<and> 0 \<le> limit \<and> limit < 2 ^ 63 \<and> (page - 1) * limit < 2 ^ 63 \<longrightarrow>
            (\<exists>ordered. mset ordered = mset (datasets_query db a j) \<and>
               sorted_wrt (\<lambda>x y. dataset_created_at y \<le> dataset_created_at x) ordered \<and>
               EmailDatasetsApi_get db email page limit =
                 Inr \<lparr>resp_data = take (nat limit) (drop (nat ((page - 1) * limit)) ordered),
                      resp_has_more = ((page - 1) * limit + limit < int (length (datasets_query db a j))),
                      resp_total = int (length (datasets_query db a j)),
                      resp_page = page, resp_limit = limit\<rparr>)) \<and>
         (int (length (datasets_query db a j)) \<le> limit \<and> limit < 2 ^ 63 \<longrightarrow>
            (\<exists>r. EmailDatasetsApi_get db email 1 limit = Inr r \<and>
                 set (resp_data r) = set (datasets_query db a j) \<and>
                 resp_total r = int (length (datasets_query db a j)))) \<and>
         (\<forall>d\<in>set (Datasets db).
            dataset_permission d = PARTIAL_TEAM \<and> dataset_created_by d \<noteq> account_id a \<and>
            (\<forall>p\<in>set (DatasetPermissions db).
               perm_dataset_id p = dataset_id d \<and> perm_account_id p = account_id a \<longrightarrow>
               \<not> perm_has_permission p) \<longrightarrow>
            d \<notin> set (datasets_query db a j) \<and>
            (\<forall>pg lm r. EmailDatasetsApi_get db email pg lm = Inr r \<longrightarrow> d \<notin> set (resp_data r)))"
proof -
  have member: "\<forall>d. d \<in> set (datasets_query db a j) \<longleftrightarrow>
            d \<in> set (Datasets db) \<and> dataset_tenant_id d = join_tenant_id j \<and>
            (dataset_created_by d = account_id a \<or>
             dataset_permission d = ALL_TEAM \<or>
             (dataset_permission d = PARTIAL_TEAM \<and>
              (\<exists>p\<in>set (DatasetPermissions db).
                 perm_dataset_id p = dataset_id d \<and> perm_account_id p = account_id a \<and>
                 perm_has_permission p)))"
    by (simp add: datasets_query_filter)
  have rows: "datasets_query db a j =
            filter (\<lambda>d. dataset_tenant_id d = join_tenant_id j \<and>
                 (dataset_created_by d = account_id a \<or>
                  dataset_permission d = ALL_TEAM \<or>
                  (dataset_permission d = PARTIAL_TEAM \<and>
                   (\<exists>p\<in>set (DatasetPermissions db).
                      perm_dataset_id p = dataset_id d \<and> perm_account_id p = account_id a \<and>
                      perm_has_permission p))))
              (Datasets db)"
    by (rule datasets_query_filter)
  have paged: "1 \<le> page \<and> 0 \<le> limit \<and> limit < 2 ^ 63 \<and> (page - 1) * limit < 2 ^ 63 \<longrightarrow>
            (\<exists>ordered. mset ordered = mset (datasets_query db a j) \<and>
               sorted_wrt (\<lambda>x y. dataset_created_at y \<le> dataset_created_at x) ordered \<and>
               EmailDatasetsApi_get db email page limit =
                 Inr \<lparr>resp_data = take (nat limit) (drop (nat ((page - 1) * limit)) ordered),
                      resp_has_more = ((page - 1) * limit + limit < int (length (datasets_query db a j))),
                      resp_total = int (length (datasets_query db a j)),
                      resp_page = page, resp_limit = limit\<rparr>)"
    using EmailDatasetsApi_get_page [OF assms] by blast
  have covered: "int (length (datasets_query db a j)) \<le> limit \<and> limit < 2 ^ 63 \<longrightarrow>
            (\<exists>r. EmailDatasetsApi_get db email 1 limit = Inr r \<and>
                 set (resp_data r) = set (datasets_query db a j) \<and>
                 resp_total r = int (length (datasets_query db a j)))"
    using EmailDatasetsApi_get_all_rows [OF assms] by blast
  have excluded: "\<forall>d\<in>set (Datasets db).
            dataset_permission d = PARTIAL_TEAM \<and> dataset_created_by d \<noteq> account_id a \<and>
            (\<forall>p\<in>set (DatasetPermissions db).
               perm_dataset_id p = dataset_id d \<and> perm_account_id p = account_id a \<longrightarrow>
               \<not> perm_has_permission p) \<longrightarrow>
            d \<notin> set (datasets_query db a j) \<and>
            (\<forall>pg lm r. EmailDatasetsApi_get db email pg lm = Inr r \<longrightarrow> d \<notin> set (resp_data r))"
  proof (intro ballI impI)
    fix d
    assume "d \<in> set (Datasets db)" and "dataset_permission d = PARTIAL_TEAM \<and>
            dataset_created_by d \<noteq> account_id a \<and>
            (\<forall>p\<in>set (DatasetPermissions db).
               perm_dataset_id p = dataset_id d \<and> perm_account_id p = account_id a \<longrightarrow>
               \<not> perm_has_permission p)"
    with member have out: "d \<notin> set (datasets_query db a j)"
      by auto
    then show "d \<notin> set (datasets_query db a j) \<and>
            (\<forall>pg lm r. EmailDatasetsApi_get db email pg lm = Inr r \<longrightarrow> d \<notin> set (resp_data r))"
      using EmailDatasetsApi_get_data_subset [OF assms] by blast
  qed
  show ?thesis
    apply (intro conjI)
        apply (rule member)
       apply (rule rows)
      apply (rule paged)
     apply (rule covered)
    apply (rule excluded)
    done
qed

text \<open>In the example database Alice's first page holds the dataset with a positive
  grant, not the one with a negative grant.\<close>

theorem dataset_visibility_witness:
  "\<exists>r. EmailDatasetsApi_get example_db ''alice@example.com'' 1 20 = Inr r \<and>
       resp_total r = 3 \<and>
       dataset_row ''d2'' ''t1'' ''a2'' PARTIAL_TEAM 20 \<in> set (resp_data r) \<and>
       dataset_row ''d3'' ''t1'' ''a2'' PARTIAL_TEAM 30 \<notin> set (resp_data r)"
proof -
  note v = dataset_visibility [OF ex_find ex_resolve, where page = 1 and limit = 20]
  note member = v [THEN conjunct1]
  note covered = v [THEN conjunct2, THEN conjunct2, THEN conjunct2, THEN conjunct1]
  have len: "int (length (datasets_query example_db alice alice_t1)) = 3"
    by (simp add: datasets_query_def ex_defs)
  from member have d2: "dataset_row ''d2'' ''t1'' ''a2'' PARTIAL_TEAM 20
      \<in> set (datasets_query example_db alice alice_t1)"
    by (simp add: ex_defs)
  from member have d3: "dataset_row ''d3'' ''t1'' ''a2'' PARTIAL_TEAM 30
      \<notin> set (datasets_query example_db alice alice_t1)"
    by (simp add: ex_defs)
  from covered len have "\<exists>r. EmailDatasetsApi_get example_db ''alice@example.com'' 1 20 = Inr r \<and>
       set (resp_data r) = set (datasets_query example_db alice alice_t1) \<and>
       resp_total r = int (length (datasets_query example_db alice alice_t1))"
    by simp
  with len d2 d3 show ?thesis
    by auto
qed

subsection \<open>App visibility\<close>

text \<open>
  Claim C2. For the account \<open>a\<close> and the tenant join \<open>j\<close> that \<^verbatim>\<open>EmailAppsApi.get\<close>
  resolves, an app is in the query result if and only if it is a row of the tenant and
  it was created by the account, or \<^verbatim>\<open>is_public\<close> is true, or an \<^verbatim>\<open>InstalledApp\<close> row exists
  for that tenant and app; the result holds each such row of the table once. For a page of at least 1 and a limit and an offset from 0 to
  below \<open>2 ^ 63\<close> the handler returns the length of that result as \<^verbatim>\<open>total\<close> and, as
  \<^verbatim>\<open>data\<close>, the page window of the result in descending \<^verbatim>\<open>created_at\<close> order; on page 1
  with a limit that covers the result, \<^verbatim>\<open>data\<close> holds exactly the rows of the result. In
  particular an app of the tenant that the account did not create and that is not
  public but is installed for the tenant is in the result and in that \<^verbatim>\<open>data\<close>.
\<close>

theorem app_visibility:
  assumes "find_account db email = Some a" and "resolve_tenant db a = Some j"
  shows "(\<forall>p. p \<in> set (apps_query db a j) \<longleftrightarrow>
            p \<in> set (Apps db) \<and> app_tenant_id p = join_tenant_id j \<and>
            (app_created_by p = account_id a \<or> app_is_public p \<or>
             (\<exists>i\<in>set (InstalledApps db).
                installed_tenant_id i = join_tenant_id j \<and> installed_app_id i = app_id p))) \<and>
         (apps_query db a j =
            filter (\<lambda>p. app_tenant_id p = join_tenant_id j \<and>
                 (app_created_by p = account_id a \<or> app_is_public p \<or>
                  (\<exists>i\<in>set (InstalledApps db).
                     installed_tenant_id i = join_tenant_id j \<and> installed_app_id i = app_id p)))
              (Apps db)) \<and>
         (1 \<le> page \<and> 0 \<le> limit \<and> limit < 2 ^ 63 \<and> (page - 1) * limit < 2 ^ 63 \<longrightarrow>
            (\<exists>ordered. mset ordered = mset (apps_query db a j) \<and>
               sorted_wrt (\<lambda>x y. app_created_at y \<le> app_created_at x) ordered \<and>
               EmailAppsApi_get db email page limit =
                 Inr \<lparr>resp_data = take (nat limit) (drop (nat ((page - 1) * limit)) ordered),
                      resp_has_more = ((page - 1) * limit + limit < int (length (apps_query db a j))),
                      resp_total = int (length (apps_query db a j)),
                      resp_page = page, resp_limit = limit\<rparr>)) \<and>
         (int (length (apps_query db a j)) \<le> limit \<and> limit < 2 ^ 63 \<longrightarrow>
            (\<exists>r. EmailAppsApi_get db email 1 limit = Inr r \<and>
                 set (resp_data r) = set (apps_query db a j) \<and>
                 resp_total r = int (length (apps_query db a j)))) \<and>
         (\<forall>p\<in>set (Apps db).
            app_tenant_id p = join_tenant_id j \<and> app_created_by p \<noteq> account_id a \<and>
            \<not> app_is_public p \<and>
            (\<exists>i\<in>set (InstalledApps db).
               installed_tenant_id i = join_tenant_id j \<and> installed_app_id i = app_id p) \<longrightarrow>
            p \<in> set (apps_query db a j) \<and>
            (int (length (apps_query db a j)) \<le> limit \<and> limit < 2 ^ 63 \<longrightarrow>
               (\<exists>r. EmailAppsApi_get db email 1 limit = Inr r \<and> p \<in> set (resp_data r))))"
proof -
  have member: "\<forall>p. p \<in> set (apps_query db a j) \<longleftrightarrow>
            p \<in> set (Apps db) \<and> app_tenant_id p = join_tenant_id j \<and>
            (app_created_by p = account_id a \<or> app_is_public p \<or>
             (\<exists>i\<in>set (InstalledApps db).
                installed_tenant_id i = join_tenant_id j \<and> installed_app_id i = app_id p))"
    by (simp add: apps_query_filter)
  have rows: "apps_query db a j =
            filter (\<lambda>p. app_tenant_id p = join_tenant_id j \<and>
                 (app_created_by p = account_id a \<or> app_is_public p \<or>
                  (\<exists>i\<in>set (InstalledApps db).
                     installed_tenant_id i = join_tenant_id j \<and> installed_app_id i = app_id p)))
              (Apps db)"
    by (rule apps_query_filter)
  have paged: "1 \<le> page \<and> 0 \<le> limit \<and> limit < 2 ^ 63 \<and> (page - 1) * limit < 2 ^ 63 \<longrightarrow>
            (\<exists>ordered. mset ordered = mset (apps_query db a j) \<and>
               sorted_wrt (\<lambda>x y. app_created_at y \<le> app_created_at x) ordered \<and>
               EmailAppsApi_get db email page limit =
                 Inr \<lparr>resp_data = take (nat limit) (drop (nat ((page - 1) * limit)) ordered),
                      resp_has_more = ((page - 1) * limit + limit < int (length (apps_query db a j))),
                      resp_total = int (length (apps_query db a j)),
                      resp_page = page, resp_limit = limit\<rparr>)"
    using EmailAppsApi_get_page [OF assms] by blast
  have covered: "int (length (apps_query db a j)) \<le> limit \<and> limit < 2 ^ 63 \<longrightarrow>
            (\<exists>r. EmailAppsApi_get db email 1 limit = Inr r \<and>
                 set (resp_data r) = set (apps_query db a j) \<and>
                 resp_total r = int (length (apps_query db a j)))"
    using EmailAppsApi_get_all_rows [OF assms] by blast
  have installed: "\<forall>p\<in>set (Apps db).
            app_tenant_id p = join_tenant_id j \<and> app_created_by p \<noteq> account_id a \<and>
            \<not> app_is_public p \<and>
            (\<exists>i\<in>set (InstalledApps db).
               installed_tenant_id i = join_tenant_id j \<and> installed_app_id i = app_id p) \<longrightarrow>
            p \<in> set (apps_query db a j) \<and>
            (int (length (apps_query db a j)) \<le> limit \<and> limit < 2 ^ 63 \<longrightarrow>
               (\<exists>r. EmailAppsApi_get db email 1 limit = Inr r \<and> p \<in> set (resp_data r)))"
  proof (intro ballI impI)
    fix p
    assume "p \<in> set (Apps db)" and "app_tenant_id p = join_tenant_id j \<and>
            app_created_by p \<noteq> account_id a \<and> \<not> app_is_public p \<and>
            (\<exists>i\<in>set (InstalledApps db).
               installed_tenant_id i = join_tenant_id j \<and> installed_app_id i = app_id p)"
    with member have inq: "p \<in> set (apps_query db a j)"
      by auto
    with covered show "p \<in> set (apps_query db a j) \<and>
            (int (length (apps_query db a j)) \<le> limit \<and> limit < 2 ^ 63 \<longrightarrow>
               (\<exists>r. EmailAppsApi_get db email 1 limit = Inr r \<and> p \<in> set (resp_data r)))"
      by auto
  qed
  show ?thesis
    apply (intro conjI)
        apply (rule member)
       apply (rule rows)
      apply (rule paged)
     apply (rule covered)
    apply (rule installed)
    done
qed

text \<open>In the example database Alice's first page holds the installed app \<^verbatim>\<open>p3\<close> of Bob,
  not his private app \<^verbatim>\<open>p4\<close>.\<close>

theorem app_visibility_witness:
  "\<exists>r. EmailAppsApi_get example_db ''alice@example.com'' 1 20 = Inr r \<and>
       resp_total r = 3 \<and>
       app_row ''p3'' ''t1'' ''a2'' False 30 \<in> set (resp_data r) \<and>
       app_row ''p4'' ''t1'' ''a2'' False 40 \<notin> set (resp_data r)"
proof -
  note v = app_visibility [OF ex_find ex_resolve, where page = 1 and limit = 20]
  note member = v [THEN conjunct1]
  note covered = v [THEN conjunct2, THEN conjunct2, THEN conjunct2, THEN conjunct1]
  have len: "int (length (apps_query example_db alice alice_t1)) = 3"
    by (simp add: apps_query_def ex_defs)
  from member have p3: "app_row ''p3'' ''t1'' ''a2'' False 30 \<in> set (apps_query example_db alice alice_t1)"
    by (simp add: ex_defs)
  from member have p4: "app_row ''p4'' ''t1'' ''a2'' False 40
      \<notin> set (apps_query example_db alice alice_t1)"
    by (simp add: ex_defs)
  from covered len have "\<exists>r. EmailAppsApi_get example_db ''alice@example.com'' 1 20 = Inr r \<and>
       set (resp_data r) = set (apps_query example_db alice alice_t1) \<and>
       resp_total r = int (length (apps_query example_db alice alice_t1))"
    by simp
  with len p3 p4 show ?thesis
    by auto
qed

subsection \<open>Tenant resolution\<close>

lemma find_Some_props: "find P xs = Some x \<Longrightarrow> P x \<and> x \<in> set xs"
  by (auto simp: find_Some_iff)

lemma resolve_tenant_current:
  assumes "\<exists>j\<in>set (TenantAccountJoins db). join_account_id j = account_id a \<and> join_current j"
  shows "\<exists>j. resolve_tenant db a = Some j \<and> j \<in> set (TenantAccountJoins db) \<and>
             join_account_id j = account_id a \<and> join_current j"
proof -
  from assms obtain c where
    c: "find (\<lambda>j. join_account_id j = account_id a \<and> join_current j) (TenantAccountJoins db) = Some c"
    by (cases "find (\<lambda>j. join_account_id j = account_id a \<and> join_current j)
          (TenantAccountJoins db)") (auto simp: find_None_iff)
  then have "resolve_tenant db a = Some c"
    by (simp add: resolve_tenant_def Let_def)
  with c show ?thesis
    by (auto dest: find_Some_props)
qed

lemma resolve_tenant_fallback:
  assumes "\<not> (\<exists>j\<in>set (TenantAccountJoins db). join_account_id j = account_id a \<and> join_current j)"
  shows "resolve_tenant db a = find (\<lambda>j. join_account_id j = account_id a) (TenantAccountJoins db)"
proof -
  from assms have "find (\<lambda>j. join_account_id j = account_id a \<and> join_current j)
      (TenantAccountJoins db) = None"
    by (auto simp: find_None_iff)
  then show ?thesis by (simp add: resolve_tenant_def Let_def)
qed

lemma resolve_tenant_none:
  "(resolve_tenant db a = None) =
   (\<forall>j\<in>set (TenantAccountJoins db). join_account_id j \<noteq> account_id a)"
proof (cases "find (\<lambda>j. join_account_id j = account_id a \<and> join_current j = True)
      (TenantAccountJoins db)")
  case None
  then show ?thesis by (auto simp: resolve_tenant_def Let_def find_None_iff)
next
  case (Some j)
  then have "j \<in> set (TenantAccountJoins db) \<and> join_account_id j = account_id a"
    by (auto dest: find_Some_props)
  with Some show ?thesis by (auto simp: resolve_tenant_def Let_def)
qed

lemma resolve_tenant_unique_current:
  assumes "c \<in> set (TenantAccountJoins db)" "join_account_id c = account_id a" "join_current c"
    and "\<forall>j\<in>set (TenantAccountJoins db). join_account_id j = account_id a \<and> join_current j \<longrightarrow> j = c"
  shows "resolve_tenant db a = Some c"
proof -
  from assms(1-3) obtain j where j: "resolve_tenant db a = Some j" "j \<in> set (TenantAccountJoins db)"
    "join_account_id j = account_id a" "join_current j"
    using resolve_tenant_current [of db a] by blast
  with assms(4) show ?thesis by auto
qed

text \<open>
  Claim C3. When no \<^verbatim>\<open>Account\<close> row has the requested email, and likewise when the
  account found has no \<^verbatim>\<open>TenantAccountJoin\<close> row at all, both handlers return the empty
  page with \<^verbatim>\<open>data = []\<close>, \<^verbatim>\<open>has_more = False\<close>, \<^verbatim>\<open>total = 0\<close> and the request's
  \<^verbatim>\<open>page\<close> and \<^verbatim>\<open>limit\<close>, for every page and limit; they do not raise.
\<close>

theorem unknown_email_empty_page:
  "((\<forall>a\<in>set (Accounts db). account_email a \<noteq> email) \<longrightarrow>
      EmailDatasetsApi_get db email page limit =
        Inr \<lparr>resp_data = [], resp_has_more = False, resp_total = 0,
             resp_page = page, resp_limit = limit\<rparr> \<and>
      EmailAppsApi_get db email page limit =
        Inr \<lparr>resp_data = [], resp_has_more = False, resp_total = 0,
             resp_page = page, resp_limit = limit\<rparr>) \<and>
   (find_account db email = Some a \<and>
    (\<forall>j\<in>set (TenantAccountJoins db). join_account_id j \<noteq> account_id a) \<longrightarrow>
      EmailDatasetsApi_get db email page limit =
        Inr \<lparr>resp_data = [], resp_has_more = False, resp_total = 0,
             resp_page = page, resp_limit = limit\<rparr> \<and>
      EmailAppsApi_get db email page limit =
        Inr \<lparr>resp_data = [], resp_has_more = False, resp_total = 0,
             resp_page = page, resp_limit = limit\<rparr>)"
proof -
  have no_account: "find_account db email = None"
    if "\<forall>a\<in>set (Accounts db). account_email a \<noteq> email"
    using that by (simp add: find_account_def find_None_iff)
  have no_tenant: "resolve_tenant db a = None"
    if "\<forall>j\<in>set (TenantAccountJoins db). join_account_id j \<noteq> account_id a"
    using that by (simp add: resolve_tenant_none)
  show ?thesis
    using no_account no_tenant
    by (auto simp: EmailDatasetsApi_get_def EmailAppsApi_get_def empty_page_def)
qed

text \<open>An email nobody has, with a negative limit, and Bob, who has no tenant.\<close>

theorem unknown_email_empty_page_witness:
  "EmailDatasetsApi_get example_db ''nobody@example.com'' 2 (- 5) =
     Inr \<lparr>resp_data = [], resp_has_more = False, resp_total = 0, resp_page = 2, resp_limit = - 5\<rparr> \<and>
   EmailAppsApi_get example_db ''nobody@example.com'' 2 (- 5) =
     Inr \<lparr>resp_data = [], resp_has_more = False, resp_total = 0, resp_page = 2, resp_limit = - 5\<rparr> \<and>
   EmailDatasetsApi_get example_db ''bob@example.com'' 1 20 =
     Inr \<lparr>resp_data = [], resp_has_more = False, resp_total = 0, resp_page = 1, resp_limit = 20\<rparr> \<and>
   EmailAppsApi_get example_db ''bob@example.com'' 1 20 =
     Inr \<lparr>resp_data = [], resp_has_more = False, resp_total = 0, resp_page = 1, resp_limit = 20\<rparr>"
proof -
  have bob: "find_account example_db ''bob@example.com'' = Some bob"
    by (simp add: find_account_def ex_defs)
  from unknown_email_empty_page [of example_db "''nobody@example.com''" 2 "- 5" bob]
  have unknown: "EmailDatasetsApi_get example_db ''nobody@example.com'' 2 (- 5) =
     Inr \<lparr>resp_data = [], resp_has_more = False, resp_total = 0, resp_page = 2, resp_limit = - 5\<rparr> \<and>
   EmailAppsApi_get example_db ''nobody@example.com'' 2 (- 5) =
     Inr \<lparr>resp_data = [], resp_has_more = False, resp_total = 0, resp_page = 2, resp_limit = - 5\<rparr>"
    by (simp add: ex_defs)
  from unknown_email_empty_page [of example_db "''bob@example.com''" 1 20 bob] bob
  have tenantless: "EmailDatasetsApi_get example_db ''bob@example.com'' 1 20 =
     Inr \<lparr>resp_data = [], resp_has_more = False, resp_total = 0, resp_page = 1, resp_limit = 20\<rparr> \<and>
   EmailAppsApi_get example_db ''bob@example.com'' 1 20 =
     Inr \<lparr>resp_data = [], resp_has_more = False, resp_total = 0, resp_page = 1, resp_limit = 20\<rparr>"
    by (simp add: ex_defs)
  from unknown tenantless show ?thesis by blast
qed

text \<open>
  Claim C5. For the account found by email, tenant resolution takes a
  \<^verbatim>\<open>TenantAccountJoin\<close> row of the account with \<^verbatim>\<open>current\<close> true whenever one exists, and
  only when none exists falls back to the first join row of the account. So when the
  account has exactly one current join \<open>c\<close>, whatever other joins it has, \<open>c\<close> is
  selected, and both handlers answer from the tenant of \<open>c\<close> (for a page of at least
  1 and a limit and an offset from 0 to below \<open>2 ^ 63\<close>).
\<close>

theorem current_tenant_preferred:
  assumes "find_account db email = Some a"
  shows "((\<exists>j\<in>set (TenantAccountJoins db). join_account_id j = account_id a \<and> join_current j) \<longrightarrow>
            (\<exists>c. resolve_tenant db a = Some c \<and> c \<in> set (TenantAccountJoins db) \<and>
                 join_account_id c = account_id a \<and> join_current c)) \<and>
         (\<not> (\<exists>j\<in>set (TenantAccountJoins db). join_account_id j = account_id a \<and> join_current j) \<longrightarrow>
            resolve_tenant db a =
              find (\<lambda>j. join_account_id j = account_id a) (TenantAccountJoins db)) \<and>
         (c \<in> set (TenantAccountJoins db) \<and> join_account_id c = account_id a \<and> join_current c \<and>
          (\<forall>j\<in>set (TenantAccountJoins db).
             join_account_id j = account_id a \<and> join_current j \<longrightarrow> j = c) \<longrightarrow>
            resolve_tenant db a = Some c \<and>
            (1 \<le> page \<and> 0 \<le> limit \<and> limit < 2 ^ 63 \<and> (page - 1) * limit < 2 ^ 63 \<longrightarrow>
               (\<exists>ordered. mset ordered = mset (datasets_query db a c) \<and>
                  sorted_wrt (\<lambda>x y. dataset_created_at y \<le> dataset_created_at x) ordered \<and>
                  EmailDatasetsApi_get db email page limit =
                    Inr \<lparr>resp_data = take (nat limit) (drop (nat ((page - 1) * limit)) ordered),
                         resp_has_more = ((page - 1) * limit + limit < int (length (datasets_query db a c))),
                         resp_total = int (length (datasets_query db a c)),
                         resp_page = page, resp_limit = limit\<rparr>) \<and>
               (\<exists>ordered. mset ordered = mset (apps_query db a c) \<and>
                  sorted_wrt (\<lambda>x y. app_created_at y \<le> app_created_at x) ordered \<and>
                  EmailAppsApi_get db email page limit =
                    Inr \<lparr>resp_data = take (nat limit) (drop (nat ((page - 1) * limit)) ordered),
                         resp_has_more = ((page - 1) * limit + limit < int (length (apps_query db a c))),
                         resp_total = int (length (apps_query db a c)),
                         resp_page = page, resp_limit = limit\<rparr>)))"
proof -
  have preferred: "(\<exists>j\<in>set (TenantAccountJoins db). join_account_id j = account_id a \<and> join_current j) \<longrightarrow>
            (\<exists>c. resolve_tenant db a = Some c \<and> c \<in> set (TenantAccountJoins db) \<and>
                 join_account_id c = account_id a \<and> join_current c)"
    using resolve_tenant_current [of db a] by blast
  have fallback: "\<not> (\<exists>j\<in>set (TenantAccountJoins db). join_account_id j = account_id a \<and> join_current j) \<longrightarrow>
            resolve_tenant db a =
              find (\<lambda>j. join_account_id j = account_id a) (TenantAccountJoins db)"
    using resolve_tenant_fallback [of db a] by blast
  have selected: "c \<in> set (TenantAccountJoins db) \<and> join_account_id c = account_id a \<and> join_current c \<and>
          (\<forall>j\<in>set (TenantAccountJoins db).
             join_account_id j = account_id a \<and> join_current j \<longrightarrow> j = c) \<longrightarrow>
            resolve_tenant db a = Some c \<and>
            (1 \<le> page \<and> 0 \<le> limit \<and> limit < 2 ^ 63 \<and> (page - 1) * limit < 2 ^ 63 \<longrightarrow>
               (\<exists>ordered. mset ordered = mset (datasets_query db a c) \<and>
                  sorted_wrt (\<lambda>x y. dataset_created_at y \<le> dataset_created_at x) ordered \<and>
                  EmailDatasetsApi_get db email page limit =
                    Inr \<lparr>resp_data = take (nat limit) (drop (nat ((page - 1) * limit)) ordered),
                         resp_has_more = ((page - 1) * limit + limit < int (length (datasets_query db a c))),
                         resp_total = int (length (datasets_query db a c)),
                         resp_page = page, resp_limit = limit\<rparr>) \<and>
               (\<exists>ordered. mset ordered = mset (apps_query db a c) \<and>
                  sorted_wrt (\<lambda>x y. app_created_at y \<le> app_created_at x) ordered \<and>
                  EmailAppsApi_get db email page limit =
                    Inr \<lparr>resp_data = take (nat limit) (drop (nat ((page - 1) * limit)) ordered),
                         resp_has_more = ((page - 1) * limit + limit < int (length (apps_query db a c))),
                         resp_total = int (length (apps_query db a c)),
                         resp_page = page, resp_limit = limit\<rparr>))"
  proof (intro impI, elim conjE)
    assume c: "c \<in> set (TenantAccountJoins db)" "join_account_id c = account_id a" "join_current c"
      "\<forall>j\<in>set (TenantAccountJoins db). join_account_id j = account_id a \<and> join_current j \<longrightarrow> j = c"
    then have r: "resolve_tenant db a = Some c"
      by (rule resolve_tenant_unique_current)
    have "1 \<le> page \<and> 0 \<le> limit \<and> limit < 2 ^ 63 \<and> (page - 1) * limit < 2 ^ 63 \<longrightarrow>
               (\<exists>ordered. mset ordered = mset (datasets_query db a c) \<and>
                  sorted_wrt (\<lambda>x y. dataset_created_at y \<le> dataset_created_at x) ordered \<and>
                  EmailDatasetsApi_get db email page limit =
                    Inr \<lparr>resp_data = take (nat limit) (drop (nat ((page - 1) * limit)) ordered),
                         resp_has_more = ((page - 1) * limit + limit < int (length (datasets_query db a c))),
                         resp_total = int (length (datasets_query db a c)),
                         resp_page = page, resp_limit = limit\<rparr>) \<and>
               (\<exists>ordered. mset ordered = mset (apps_query db a c) \<and>
                  sorted_wrt (\<lambda>x y. app_created_at y \<le> app_created_at x) ordered \<and>
                  EmailAppsApi_get db email page limit =
                    Inr \<lparr>resp_data = take (nat limit) (drop (nat ((page - 1) * limit)) ordered),
                         resp_has_more = ((page - 1) * limit + limit < int (length (apps_query db a c))),
                         resp_total = int (length (apps_query db a c)),
                         resp_page = page, resp_limit = limit\<rparr>)"
      using EmailDatasetsApi_get_page [OF assms r] EmailAppsApi_get_page [OF assms r]
      by blast
    with r show "resolve_tenant db a = Some c \<and>
            (1 \<le> page \<and> 0 \<le> limit \<and> limit < 2 ^ 63 \<and> (page - 1) * limit < 2 ^ 63 \<longrightarrow>
               (\<exists>ordered. mset ordered = mset (datasets_query db a c) \<and>
                  sorted_wrt (\<lambda>x y. dataset_created_at y \<le> dataset_created_at x) ordered \<and>
                  EmailDatasetsApi_get db email page limit =
                    Inr \<lparr>resp_data = take (nat limit) (drop (nat ((page - 1) * limit)) ordered),
                         resp_has_more = ((page - 1) * limit + limit < int (length (datasets_query db a c))),
                         resp_total = int (length (datasets_query db a c)),
                         resp_page = page, resp_limit = limit\<rparr>) \<and>
               (\<exists>ordered. mset ordered = mset (apps_query db a c) \<and>
                  sorted_wrt (\<lambda>x y. app_created_at y \<le> app_created_at x) ordered \<and>
                  EmailAppsApi_get db email page limit =
                    Inr \<lparr>resp_data = take (nat limit) (drop (nat ((page - 1) * limit)) ordered),
                         resp_has_more = ((page - 1) * limit + limit < int (length (apps_query db a c))),
                         resp_total = int (length (apps_query db a c)),
                         resp_page = page, resp_limit = limit\<rparr>))"
      by (rule conjI)
  qed
  show ?thesis
    apply (intro conjI)
      apply (rule preferred)
     apply (rule fallback)
    apply (rule selected)
    done
qed

text \<open>Alice's non-current join comes first in the table; her current one is chosen.\<close>

theorem current_tenant_preferred_witness:
  "resolve_tenant example_db alice = Some alice_t1 \<and>
   (\<exists>r. EmailDatasetsApi_get example_db ''alice@example.com'' 1 20 = Inr r \<and>
        resp_total r = int (length (datasets_query example_db alice alice_t1))) \<and>
   (\<exists>r. EmailAppsApi_get example_db ''alice@example.com'' 1 20 = Inr r \<and>
        resp_total r = int (length (apps_query example_db alice alice_t1)))"
proof -
  have c: "alice_t1 \<in> set (TenantAccountJoins example_db) \<and>
      join_account_id alice_t1 = account_id alice \<and> join_current alice_t1 \<and>
      (\<forall>j\<in>set (TenantAccountJoins example_db).
         join_account_id j = account_id alice \<and> join_current j \<longrightarrow> j = alice_t1)"
    by (simp add: ex_defs)
  have b: "(1::int) \<le> 1 \<and> (0::int) \<le> 20 \<and> (20::int) < 2 ^ 63 \<and> ((1::int) - 1) * 20 < 2 ^ 63"
    by simp
  note t = current_tenant_preferred [OF ex_find, of alice_t1 1 20,
      THEN conjunct2, THEN conjunct2, rule_format, OF c]
  from t have r: "resolve_tenant example_db alice = Some alice_t1"
    by (rule conjunct1)
  from t b have "(\<exists>r. EmailDatasetsApi_get example_db ''alice@example.com'' 1 20 = Inr r \<and>
        resp_total r = int (length (datasets_query example_db alice alice_t1))) \<and>
   (\<exists>r. EmailAppsApi_get example_db ''alice@example.com'' 1 20 = Inr r \<and>
        resp_total r = int (length (apps_query example_db alice alice_t1)))"
    by fastforce
  with r show ?thesis
    by (rule conjI)
qed

subsection \<open>Pagination\<close>

text \<open>
  With a negative limit, with a limit of \<open>2 ^ 63\<close>, and with an offset of \<open>2 ^ 63\<close>
  (page \<open>2 ^ 62 + 1\<close>, limit 2) the page query is rejected by the database after the
  account and the tenant were found, so no page is returned.
\<close>

theorem pagination_counterexample:
  "find_account example_db ''alice@example.com'' = Some alice \<and>
   resolve_tenant example_db alice = Some alice_t1 \<and>
   EmailDatasetsApi_get example_db ''alice@example.com'' 1 (- 1) = Inl DataError \<and>
   EmailAppsApi_get example_db ''alice@example.com'' 1 (- 1) = Inl DataError \<and>
   EmailDatasetsApi_get example_db ''alice@example.com'' 1 9223372036854775808 = Inl DataError \<and>
   EmailAppsApi_get example_db ''alice@example.com'' 1 9223372036854775808 = Inl DataError \<and>
   EmailDatasetsApi_get example_db ''alice@example.com'' 4611686018427387905 2 = Inl DataError \<and>
   EmailAppsApi_get example_db ''alice@example.com'' 4611686018427387905 2 = Inl DataError"
  by (simp add: EmailDatasetsApi_get_def EmailAppsApi_get_def find_account_def resolve_tenant_def
      offset_limit_all_def ex_defs)

text \<open>
  Claim C4, amended. For every page of at least 1 and every limit with
  \<open>0 \<le> limit < 2 ^ 63\<close> and \<open>(page - 1) * limit < 2 ^ 63\<close>, once the account and the
  tenant are resolved, both handlers take \<open>offset = (page - 1) * limit\<close>, return the
  rows from \<open>offset\<close> up to \<open>limit\<close> many of the query result put in descending
  \<^verbatim>\<open>created_at\<close> order (in whatever order the database leaves rows of equal
  \<^verbatim>\<open>created_at\<close>), and return \<open>has_more = (offset + limit < total)\<close>. With 45 rows and limit
  20, page 1 has \<^verbatim>\<open>has_more\<close> true, and page 3 has \<^verbatim>\<open>has_more\<close> false and 5 rows.
\<close>

theorem pagination:
  assumes "find_account db email = Some a" and "resolve_tenant db a = Some j"
    and "1 \<le> page" and "0 \<le> limit" and "limit < 2 ^ 63" and "(page - 1) * limit < 2 ^ 63"
  shows "(\<exists>ordered. mset ordered = mset (datasets_query db a j) \<and>
      sorted_wrt (\<lambda>x y. dataset_created_at y \<le> dataset_created_at x) ordered \<and>
      EmailDatasetsApi_get db email page limit =
        Inr \<lparr>resp_data = take (nat limit) (drop (nat ((page - 1) * limit)) ordered),
             resp_has_more = ((page - 1) * limit + limit < int (length (datasets_query db a j))),
             resp_total = int (length (datasets_query db a j)),
             resp_page = page, resp_limit = limit\<rparr>) \<and>
   (\<exists>ordered. mset ordered = mset (apps_query db a j) \<and>
      sorted_wrt (\<lambda>x y. app_created_at y \<le> app_created_at x) ordered \<and>
      EmailAppsApi_get db email page limit =
        Inr \<lparr>resp_data = take (nat limit) (drop (nat ((page - 1) * limit)) ordered),
             resp_has_more = ((page - 1) * limit + limit < int (length (apps_query db a j))),
             resp_total = int (length (apps_query db a j)),
             resp_page = page, resp_limit = limit\<rparr>) \<and>
   (length (datasets_query db a j) = 45 \<and> limit = 20 \<and> page = 1 \<longrightarrow>
      (\<exists>r. EmailDatasetsApi_get db email page limit = Inr r \<and> resp_has_more r \<and>
           length (resp_data r) = 20)) \<and>
   (length (datasets_query db a j) = 45 \<and> limit = 20 \<and> page = 3 \<longrightarrow>
      (\<exists>r. EmailDatasetsApi_get db email page limit = Inr r \<and> \<not> resp_has_more r \<and>
           length (resp_data r) = 5)) \<and>
   (length (apps_query db a j) = 45 \<and> limit = 20 \<and> page = 1 \<longrightarrow>
      (\<exists>r. EmailAppsApi_get db email page limit = Inr r \<and> resp_has_more r \<and>
           length (resp_data r) = 20)) \<and>
   (length (apps_query db a j) = 45 \<and> limit = 20 \<and> page = 3 \<longrightarrow>
      (\<exists>r. EmailAppsApi_get db email page limit = Inr r \<and> \<not> resp_has_more r \<and>
           length (resp_data r) = 5))"
proof -
  note d = EmailDatasetsApi_get_found [OF assms]
  note p = EmailAppsApi_get_found [OF assms]
  have length_ordered: "length (order_by_created_at_desc created_at rows) = length rows"
    for created_at :: "'r \<Rightarrow> int" and rows
    by (simp add: order_by_created_at_desc_def)
  have d1: "length (datasets_query db a j) = 45 \<and> limit = 20 \<and> page = 1 \<longrightarrow>
      (\<exists>r. EmailDatasetsApi_get db email page limit = Inr r \<and> resp_has_more r \<and>
           length (resp_data r) = 20)"
  proof (intro impI, elim conjE)
    assume h: "length (datasets_query db a j) = 45" "limit = 20" "page = 1"
    show "\<exists>r. EmailDatasetsApi_get db email page limit = Inr r \<and> resp_has_more r \<and>
           length (resp_data r) = 20"
      unfolding d using h by (simp add: length_ordered)
  qed
  have d3: "length (datasets_query db a j) = 45 \<and> limit = 20 \<and> page = 3 \<longrightarrow>
      (\<exists>r. EmailDatasetsApi_get db email page limit = Inr r \<and> \<not> resp_has_more r \<and>
           length (resp_data r) = 5)"
  proof (intro impI, elim conjE)
    assume h: "length (datasets_query db a j) = 45" "limit = 20" "page = 3"
    show "\<exists>r. EmailDatasetsApi_get db email page limit = Inr r \<and> \<not> resp_has_more r \<and>
           length (resp_data r) = 5"
      unfolding d using h by (simp add: length_ordered)
  qed
  have p1: "length (apps_query db a j) = 45 \<and> limit = 20 \<and> page = 1 \<longrightarrow>
      (\<exists>r. EmailAppsApi_get db email page limit = Inr r \<and> resp_has_more r \<and>
           length (resp_data r) = 20)"
  proof (intro impI, elim conjE)
    assume h: "length (apps_query db a j) = 45" "limit = 20" "page = 1"
    show "\<exists>r. EmailAppsApi_get db email page limit = Inr r \<and> resp_has_more r \<and>
           length (resp_data r) = 20"
      unfolding p using h by (simp add: length_ordered)
  qed
  have p3: "length (apps_query db a j) = 45 \<and> limit = 20 \<and> page = 3 \<longrightarrow>
      (\<exists>r. EmailAppsApi_get db email page limit = Inr r \<and> \<not> resp_has_more r \<and>
           length (resp_data r) = 5)"
  proof (intro impI, elim conjE)
    assume h: "length (apps_query db a j) = 45" "limit = 20" "page = 3"
    show "\<exists>r. EmailAppsApi_get db email page limit = Inr r \<and> \<not> resp_has_more r \<and>
           length (resp_data r) = 5"
      unfolding p using h by (simp add: length_ordered)
  qed
  show ?thesis
    apply (intro conjI)
         apply (rule EmailDatasetsApi_get_page [OF assms])
        apply (rule EmailAppsApi_get_page [OF assms])
       apply (rule d1)
      apply (rule d3)
     apply (rule p1)
    apply (rule p3)
    done
qed

lemma paging_find: "find_account paging_db ''alice@example.com'' = Some alice"
  by (simp add: find_account_def paging_db_def alice_def)

lemma paging_resolve: "resolve_tenant paging_db alice = Some alice_t1"
  by (simp add: resolve_tenant_def paging_db_def alice_def alice_t1_def)

lemma paging_datasets: "length (datasets_query paging_db alice alice_t1) = 45"
proof -
  have "datasets_query paging_db alice alice_t1 = Datasets paging_db"
    unfolding datasets_query_def
    by (rule iffD2 [OF filter_id_conv])
      (simp add: paging_db_def alice_def alice_t1_def dataset_row_def)
  then show ?thesis by (simp add: paging_db_def)
qed

lemma paging_apps: "length (apps_query paging_db alice alice_t1) = 45"
proof -
  have "apps_query paging_db alice alice_t1 = Apps paging_db"
    unfolding apps_query_filter
    by (rule iffD2 [OF filter_id_conv])
      (simp add: paging_db_def alice_def alice_t1_def app_row_def)
  then show ?thesis by (simp add: paging_db_def)
qed

text \<open>Pages 1 and 3 of Alice's 45 datasets and 45 apps, 20 to a page.\<close>

theorem pagination_witness:
  "(\<exists>r. EmailDatasetsApi_get paging_db ''alice@example.com'' 1 20 = Inr r \<and> resp_has_more r \<and>
        length (resp_data r) = 20) \<and>
   (\<exists>r. EmailDatasetsApi_get paging_db ''alice@example.com'' 3 20 = Inr r \<and> \<not> resp_has_more r \<and>
        length (resp_data r) = 5) \<and>
   (\<exists>r. EmailAppsApi_get paging_db ''alice@example.com'' 1 20 = Inr r \<and> resp_has_more r \<and>
        length (resp_data r) = 20) \<and>
   (\<exists>r. EmailAppsApi_get paging_db ''alice@example.com'' 3 20 = Inr r \<and> \<not> resp_has_more r \<and>
        length (resp_data r) = 5)"
proof -
  have one: "(1::int) \<le> 1" and three: "(1::int) \<le> 3" and lim: "(0::int) \<le> 20"
    and big: "(20::int) < 2 ^ 63"
    and off1: "((1::int) - 1) * 20 < 2 ^ 63" and off3: "((3::int) - 1) * 20 < 2 ^ 63"
    by simp_all
  note first = pagination [OF paging_find paging_resolve one lim big off1]
  note third = pagination [OF paging_find paging_resolve three lim big off3]
  from first paging_datasets
  have d1: "\<exists>r. EmailDatasetsApi_get paging_db ''alice@example.com'' 1 20 = Inr r \<and>
        resp_has_more r \<and> length (resp_data r) = 20"
    by blast
  from third paging_datasets
  have d3: "\<exists>r. EmailDatasetsApi_get paging_db ''alice@example.com'' 3 20 = Inr r \<and>
        \<not> resp_has_more r \<and> length (resp_data r) = 5"
    by blast
  from first paging_apps
  have p1: "\<exists>r. EmailAppsApi_get paging_db ''alice@example.com'' 1 20 = Inr r \<and>
        resp_has_more r \<and> length (resp_data r) = 20"
    by blast
  from third paging_apps
  have p3: "\<exists>r. EmailAppsApi_get paging_db ''alice@example.com'' 3 20 = Inr r \<and>
        \<not> resp_has_more r \<and> length (resp_data r) = 5"
    by blast
  from d1 d3 p1 p3 show ?thesis by blast
qed

section \<open>Properties of the OAuth adapters\<close>

subsection \<open>Access tokens\<close>

lemma py_truthy_nonempty: "py_truthy v \<Longrightarrow> v \<noteq> JNull \<and> v \<noteq> JStr []"
  by (cases v) auto

lemma github_token_dict:
  "GitHubOAuth_get_access_token \<lparr>status_code = sc, body = Some (JDict kvs)\<rparr> =
     (case map_of kvs ''access_token'' of None \<Rightarrow> Inl ValueError
      | Some v \<Rightarrow> if py_truthy v then Inr v else Inl ValueError)"
  by (simp add: GitHubOAuth_get_access_token_def response_json_def py_get_def split: option.splits)

lemma google_token_dict:
  "GoogleOAuth_get_access_token \<lparr>status_code = sc, body = Some (JDict kvs)\<rparr> =
     (case map_of kvs ''access_token'' of None \<Rightarrow> Inl ValueError
      | Some v \<Rightarrow> if py_truthy v then Inr v else Inl ValueError)"
  by (simp add: GoogleOAuth_get_access_token_def response_json_def py_get_def split: option.splits)

lemma ailab_token_dict:
  "AILabOAuth_get_access_token \<lparr>status_code = sc, body = Some (JDict kvs)\<rparr> =
     (case (case map_of kvs ''data'' of Some (JDict d) \<Rightarrow> map_of d ''access_token''
            | _ \<Rightarrow> map_of kvs ''access_token'') of
        None \<Rightarrow> Inl ValueError
      | Some v \<Rightarrow> if py_truthy v then Inr v else Inl ValueError)"
  by (auto simp add: AILabOAuth_get_access_token_def response_json_def py_get_def has_dict_data_def
      split: option.splits json.splits)

lemma github_token_truthy: "GitHubOAuth_get_access_token resp = Inr v \<Longrightarrow> py_truthy v"
  by (auto simp: GitHubOAuth_get_access_token_def split: sum.splits if_splits)

lemma google_token_truthy: "GoogleOAuth_get_access_token resp = Inr v \<Longrightarrow> py_truthy v"
  by (auto simp: GoogleOAuth_get_access_token_def split: sum.splits if_splits)

lemma ailab_token_truthy: "AILabOAuth_get_access_token resp = Inr v \<Longrightarrow> py_truthy v"
  by (auto simp: AILabOAuth_get_access_token_def split: sum.splits if_splits)

lemma github_token_not_dict:
  "\<forall>kvs. body resp \<noteq> Some (JDict kvs) \<Longrightarrow> \<exists>e. GitHubOAuth_get_access_token resp = Inl e"
  by (cases "body resp"; cases "the (body resp)")
    (auto simp: GitHubOAuth_get_access_token_def response_json_def py_get_def)

lemma google_token_not_dict:
  "\<forall>kvs. body resp \<noteq> Some (JDict kvs) \<Longrightarrow> \<exists>e. GoogleOAuth_get_access_token resp = Inl e"
  by (cases "body resp"; cases "the (body resp)")
    (auto simp: GoogleOAuth_get_access_token_def response_json_def py_get_def)

lemma ailab_token_not_dict:
  "\<forall>kvs. body resp \<noteq> Some (JDict kvs) \<Longrightarrow> \<exists>e. AILabOAuth_get_access_token resp = Inl e"
  by (cases "body resp"; cases "the (body resp)")
    (auto simp: AILabOAuth_get_access_token_def response_json_def py_get_def has_dict_data_def
      split: sum.splits)

text \<open>
  Claim C6. No provider's \<^verbatim>\<open>get_access_token\<close> ever returns \<^verbatim>\<open>None\<close> or the empty
  string, and each raises on a token response whose body is not a dict. On a token
  response that is a dict, GitHubOAuth and GoogleOAuth raise
  \<^verbatim>\<open>ValueError\<close> when the key \<^verbatim>\<open>access_token\<close> is missing, null or the empty string,
  and return the token when it is a non-empty string. AILabOAuth does the same on the
  dict it reads the token from: the dict under \<^verbatim>\<open>data\<close> when that field is a dict, the
  response itself otherwise.
\<close>

theorem get_access_token_missing_raises:
  "(\<forall>resp v. GitHubOAuth_get_access_token resp = Inr v \<longrightarrow> v \<noteq> JNull \<and> v \<noteq> JStr []) \<and>
   (\<forall>resp v. GoogleOAuth_get_access_token resp = Inr v \<longrightarrow> v \<noteq> JNull \<and> v \<noteq> JStr []) \<and>
   (\<forall>resp v. AILabOAuth_get_access_token resp = Inr v \<longrightarrow> v \<noteq> JNull \<and> v \<noteq> JStr []) \<and>
   (\<forall>resp. (\<forall>kvs'. body resp \<noteq> Some (JDict kvs')) \<longrightarrow>
      (\<exists>e. GitHubOAuth_get_access_token resp = Inl e) \<and>
      (\<exists>e. GoogleOAuth_get_access_token resp = Inl e) \<and>
      (\<exists>e. AILabOAuth_get_access_token resp = Inl e)) \<and>
   (map_of kvs ''access_token'' \<in> {None, Some JNull, Some (JStr [])} \<longrightarrow>
      GitHubOAuth_get_access_token \<lparr>status_code = sc, body = Some (JDict kvs)\<rparr> = Inl ValueError \<and>
      GoogleOAuth_get_access_token \<lparr>status_code = sc, body = Some (JDict kvs)\<rparr> = Inl ValueError) \<and>
   (map_of kvs ''access_token'' = Some (JStr t) \<and> t \<noteq> [] \<longrightarrow>
      GitHubOAuth_get_access_token \<lparr>status_code = sc, body = Some (JDict kvs)\<rparr> = Inr (JStr t) \<and>
      GoogleOAuth_get_access_token \<lparr>status_code = sc, body = Some (JDict kvs)\<rparr> = Inr (JStr t)) \<and>
   (map_of kvs ''data'' = Some (JDict d) \<and>
    map_of d ''access_token'' \<in> {None, Some JNull, Some (JStr [])} \<longrightarrow>
      AILabOAuth_get_access_token \<lparr>status_code = sc, body = Some (JDict kvs)\<rparr> = Inl ValueError) \<and>
   (map_of kvs ''data'' = Some (JDict d) \<and> map_of d ''access_token'' = Some (JStr t) \<and> t \<noteq> [] \<longrightarrow>
      AILabOAuth_get_access_token \<lparr>status_code = sc, body = Some (JDict kvs)\<rparr> = Inr (JStr t)) \<and>
   ((\<forall>d'. map_of kvs ''data'' \<noteq> Some (JDict d')) \<and>
    map_of kvs ''access_token'' \<in> {None, Some JNull, Some (JStr [])} \<longrightarrow>
      AILabOAuth_get_access_token \<lparr>status_code = sc, body = Some (JDict kvs)\<rparr> = Inl ValueError) \<and>
   ((\<forall>d'. map_of kvs ''data'' \<noteq> Some (JDict d')) \<and>
    map_of kvs ''access_token'' = Some (JStr t) \<and> t \<noteq> [] \<longrightarrow>
      AILabOAuth_get_access_token \<lparr>status_code = sc, body = Some (JDict kvs)\<rparr> = Inr (JStr t))"
proof -
  have never: "(\<forall>resp v. GitHubOAuth_get_access_token resp = Inr v \<longrightarrow> v \<noteq> JNull \<and> v \<noteq> JStr []) \<and>
   (\<forall>resp v. GoogleOAuth_get_access_token resp = Inr v \<longrightarrow> v \<noteq> JNull \<and> v \<noteq> JStr []) \<and>
   (\<forall>resp v. AILabOAuth_get_access_token resp = Inr v \<longrightarrow> v \<noteq> JNull \<and> v \<noteq> JStr [])"
    using github_token_truthy google_token_truthy ailab_token_truthy py_truthy_nonempty by blast
  have plain: "(map_of kvs ''access_token'' \<in> {None, Some JNull, Some (JStr [])} \<longrightarrow>
      GitHubOAuth_get_access_token \<lparr>status_code = sc, body = Some (JDict kvs)\<rparr> = Inl ValueError \<and>
      GoogleOAuth_get_access_token \<lparr>status_code = sc, body = Some (JDict kvs)\<rparr> = Inl ValueError) \<and>
   (map_of kvs ''access_token'' = Some (JStr t) \<and> t \<noteq> [] \<longrightarrow>
      GitHubOAuth_get_access_token \<lparr>status_code = sc, body = Some (JDict kvs)\<rparr> = Inr (JStr t) \<and>
      GoogleOAuth_get_access_token \<lparr>status_code = sc, body = Some (JDict kvs)\<rparr> = Inr (JStr t))"
    by (auto simp: github_token_dict google_token_dict)
  have wrapped: "(map_of kvs ''data'' = Some (JDict d) \<and>
    map_of d ''access_token'' \<in> {None, Some JNull, Some (JStr [])} \<longrightarrow>
      AILabOAuth_get_access_token \<lparr>status_code = sc, body = Some (JDict kvs)\<rparr> = Inl ValueError) \<and>
   (map_of kvs ''data'' = Some (JDict d) \<and> map_of d ''access_token'' = Some (JStr t) \<and> t \<noteq> [] \<longrightarrow>
      AILabOAuth_get_access_token \<lparr>status_code = sc, body = Some (JDict kvs)\<rparr> = Inr (JStr t))"
    by (auto simp: ailab_token_dict)
  have flat: "((\<forall>d'. map_of kvs ''data'' \<noteq> Some (JDict d')) \<and>
    map_of kvs ''access_token'' \<in> {None, Some JNull, Some (JStr [])} \<longrightarrow>
      AILabOAuth_get_access_token \<lparr>status_code = sc, body = Some (JDict kvs)\<rparr> = Inl ValueError) \<and>
   ((\<forall>d'. map_of kvs ''data'' \<noteq> Some (JDict d')) \<and>
    map_of kvs ''access_token'' = Some (JStr t) \<and> t \<noteq> [] \<longrightarrow>
      AILabOAuth_get_access_token \<lparr>status_code = sc, body = Some (JDict kvs)\<rparr> = Inr (JStr t))"
    by (auto simp: ailab_token_dict split: option.splits json.splits)
  have other: "\<forall>resp. (\<forall>kvs'. body resp \<noteq> Some (JDict kvs')) \<longrightarrow>
      (\<exists>e. GitHubOAuth_get_access_token resp = Inl e) \<and>
      (\<exists>e. GoogleOAuth_get_access_token resp = Inl e) \<and>
      (\<exists>e. AILabOAuth_get_access_token resp = Inl e)"
    using github_token_not_dict google_token_not_dict ailab_token_not_dict by blast
  from never other plain wrapped flat show ?thesis by blast
qed

text \<open>A GitHub error body, a flat token body, and wrapped bodies with an empty and
  with a real token.\<close>

theorem get_access_token_missing_raises_witness:
  "GitHubOAuth_get_access_token
     \<lparr>status_code = 200, body = Some (JDict [(''error'', JStr ''bad_verification_code'')])\<rparr> =
     Inl ValueError \<and>
   GoogleOAuth_get_access_token
     \<lparr>status_code = 200, body = Some (JDict [(''error'', JStr ''bad_verification_code'')])\<rparr> =
     Inl ValueError \<and>
   AILabOAuth_get_access_token
     \<lparr>status_code = 200, body = Some (JDict [(''error'', JStr ''bad_verification_code'')])\<rparr> =
     Inl ValueError \<and>
   GitHubOAuth_get_access_token
     \<lparr>status_code = 200, body = Some (JDict [(''access_token'', JStr ''gho_16C7'')])\<rparr> =
     Inr (JStr ''gho_16C7'') \<and>
   GoogleOAuth_get_access_token
     \<lparr>status_code = 200, body = Some (JDict [(''access_token'', JStr ''gho_16C7'')])\<rparr> =
     Inr (JStr ''gho_16C7'') \<and>
   AILabOAuth_get_access_token
     \<lparr>status_code = 200, body = Some (JDict [(''access_token'', JStr ''gho_16C7'')])\<rparr> =
     Inr (JStr ''gho_16C7'') \<and>
   AILabOAuth_get_access_token
     \<lparr>status_code = 200,
      body = Some (JDict [(''code'', JNum 200), (''data'', JDict [(''access_token'', JStr [])])])\<rparr> =
     Inl ValueError \<and>
   AILabOAuth_get_access_token
     \<lparr>status_code = 200,
      body = Some (JDict [(''code'', JNum 200),
                          (''data'', JDict [(''access_token'', JStr ''gho_16C7'')])])\<rparr> =
     Inr (JStr ''gho_16C7'')"
proof -
  note missing = get_access_token_missing_raises
    [where kvs = "[(''error'', JStr ''bad_verification_code'')]" and sc = 200]
  note present = get_access_token_missing_raises
    [where kvs = "[(''access_token'', JStr ''gho_16C7'')]" and sc = 200 and t = "''gho_16C7''"]
  note empty = get_access_token_missing_raises
    [where kvs = "[(''code'', JNum 200), (''data'', JDict [(''access_token'', JStr [])])]"
       and d = "[(''access_token'', JStr [])]" and sc = 200]
  note wrapped = get_access_token_missing_raises
    [where kvs = "[(''code'', JNum 200), (''data'', JDict [(''access_token'', JStr ''gho_16C7'')])]"
       and d = "[(''access_token'', JStr ''gho_16C7'')]" and sc = 200 and t = "''gho_16C7''"]
  from missing have m: "GitHubOAuth_get_access_token
     \<lparr>status_code = 200, body = Some (JDict [(''error'', JStr ''bad_verification_code'')])\<rparr> =
     Inl ValueError \<and>
   GoogleOAuth_get_access_token
     \<lparr>status_code = 200, body = Some (JDict [(''error'', JStr ''bad_verification_code'')])\<rparr> =
     Inl ValueError \<and>
   AILabOAuth_get_access_token
     \<lparr>status_code = 200, body = Some (JDict [(''error'', JStr ''bad_verification_code'')])\<rparr> =
     Inl ValueError"
    by simp
  from present have p: "GitHubOAuth_get_access_token
     \<lparr>status_code = 200, body = Some (JDict [(''access_token'', JStr ''gho_16C7'')])\<rparr> =
     Inr (JStr ''gho_16C7'') \<and>
   GoogleOAuth_get_access_token
     \<lparr>status_code = 200, body = Some (JDict [(''access_token'', JStr ''gho_16C7'')])\<rparr> =
     Inr (JStr ''gho_16C7'') \<and>
   AILabOAuth_get_access_token
     \<lparr>status_code = 200, body = Some (JDict [(''access_token'', JStr ''gho_16C7'')])\<rparr> =
     Inr (JStr ''gho_16C7'')"
    by simp
  from empty have e: "AILabOAuth_get_access_token
     \<lparr>status_code = 200,
      body = Some (JDict [(''code'', JNum 200), (''data'', JDict [(''access_token'', JStr [])])])\<rparr> =
     Inl ValueError"
    by simp
  from wrapped have w: "AILabOAuth_get_access_token
     \<lparr>status_code = 200,
      body = Some (JDict [(''code'', JNum 200),
                          (''data'', JDict [(''access_token'', JStr ''gho_16C7'')])])\<rparr> =
     Inr (JStr ''gho_16C7'')"
    by simp
  from m p e w show ?thesis by blast
qed

text \<open>
  Claim C7. For every token value \<open>t\<close>, \<^verbatim>\<open>AILabOAuth.get_access_token\<close> gives the same
  result on the wrapped response with \<^verbatim>\<open>code\<close>, \<^verbatim>\<open>msg\<close> and \<^verbatim>\<open>data: {access_token: t}\<close> as
  on the flat response \<^verbatim>\<open>{access_token: t}\<close>, and that result is \<open>t\<close> whenever \<open>t\<close> is
  not empty. The wrapped shape is checked first: a token under a dict-valued \<^verbatim>\<open>data\<close>
  wins over a flat token beside it, and the flat token is read when \<^verbatim>\<open>data\<close> is not a
  dict.
\<close>

theorem ailab_wrapped_same_as_flat:
  "AILabOAuth_get_access_token
     \<lparr>status_code = sc, body = Some (JDict [(''code'', c), (''msg'', m),
                                            (''data'', JDict [(''access_token'', t)])])\<rparr> =
   AILabOAuth_get_access_token \<lparr>status_code = sc', body = Some (JDict [(''access_token'', t)])\<rparr> \<and>
   (py_truthy t \<longrightarrow>
      AILabOAuth_get_access_token \<lparr>status_code = sc', body = Some (JDict [(''access_token'', t)])\<rparr> =
        Inr t) \<and>
   (py_truthy t \<longrightarrow>
      AILabOAuth_get_access_token
        \<lparr>status_code = sc, body = Some (JDict [(''access_token'', t'),
                                               (''data'', JDict [(''access_token'', t)])])\<rparr> =
        Inr t) \<and>
   (py_truthy t \<and> \<not> is_dict nd \<longrightarrow>
      AILabOAuth_get_access_token
        \<lparr>status_code = sc, body = Some (JDict [(''access_token'', t), (''data'', nd)])\<rparr> =
        Inr t)"
proof -
  have flat: "\<not> is_dict nd \<Longrightarrow>
      AILabOAuth_get_access_token
        \<lparr>status_code = sc, body = Some (JDict [(''access_token'', t), (''data'', nd)])\<rparr> =
      (if py_truthy t then Inr t else Inl ValueError)"
    by (cases nd) (simp_all add: ailab_token_dict)
  then show ?thesis
    by (simp add: ailab_token_dict)
qed

text \<open>The token \<^verbatim>\<open>tok\<close> in the wrapped shape, in the flat shape, wrapped beside another
  flat token, and flat beside a null \<^verbatim>\<open>data\<close>.\<close>

theorem ailab_wrapped_same_as_flat_witness:
  "AILabOAuth_get_access_token
     \<lparr>status_code = 200, body = Some (JDict [(''code'', JNum 200), (''msg'', JStr ''ok''),
                                             (''data'', JDict [(''access_token'', JStr ''tok'')])])\<rparr> =
   AILabOAuth_get_access_token
     \<lparr>status_code = 200, body = Some (JDict [(''access_token'', JStr ''tok'')])\<rparr> \<and>
   AILabOAuth_get_access_token
     \<lparr>status_code = 200, body = Some (JDict [(''access_token'', JStr ''tok'')])\<rparr> =
     Inr (JStr ''tok'') \<and>
   AILabOAuth_get_access_token
     \<lparr>status_code = 200, body = Some (JDict [(''access_token'', JStr ''other''),
                                             (''data'', JDict [(''access_token'', JStr ''tok'')])])\<rparr> =
     Inr (JStr ''tok'') \<and>
   AILabOAuth_get_access_token
     \<lparr>status_code = 200, body = Some (JDict [(''access_token'', JStr ''tok''),
                                             (''data'', JNull)])\<rparr> =
     Inr (JStr ''tok'')"
  using ailab_wrapped_same_as_flat
    [of 200 "JNum 200" "JStr ''ok''" "JStr ''tok''" 200 "JStr ''other''" JNull]
  by simp

subsection \<open>GitHub profiles\<close>

lemma first_primary_none:
  "\<forall>r\<in>set recs. \<exists>kvs p. r = JDict kvs \<and> map_of kvs ''primary'' = Some p \<and> \<not> py_eq_True p \<Longrightarrow>
   first_primary recs = Inr (JDict [])"
  by (induction recs) auto

lemma first_primary_found:
  "\<forall>r\<in>set pre. \<exists>kvs p. r = JDict kvs \<and> map_of kvs ''primary'' = Some p \<and> \<not> py_eq_True p \<Longrightarrow>
   map_of kvs ''primary'' = Some p \<Longrightarrow> py_eq_True p \<Longrightarrow>
   first_primary (pre @ JDict kvs # post) = Inr (JDict kvs)"
  by (induction pre) auto

lemma github_raw_user_info_merge:
  assumes "\<not> (400 \<le> sc \<and> sc < 600)" and "first_primary recs = Inr (JDict primary_email)"
  shows "GitHubOAuth_get_raw_user_info \<lparr>status_code = sc, body = Some (JDict user)\<rparr>
           \<lparr>status_code = sc', body = Some (JList recs)\<rparr> =
         Inr (JDict (AList.update ''email''
                (case map_of primary_email ''email'' of None \<Rightarrow> JStr [] | Some v \<Rightarrow> v) user))"
  using assms
  by (simp add: GitHubOAuth_get_raw_user_info_def raise_for_status_def response_json_def)

lemma github_transform_merged:
  assumes "map_of user ''id'' = Some i" and "map_of user ''login'' = Some l"
    and "map_of user ''name'' = Some n"
  shows "GitHubOAuth_transform_user_info (JDict (AList.update ''email'' e user)) =
         Inr \<lparr>info_id = py_str i, info_name = n,
              info_email = (if py_truthy e then e
                            else JStr (py_str i @ ''+'' @ py_str l @ ''@users.noreply.github.com''))\<rparr>"
  using assms
  by (simp add: GitHubOAuth_transform_user_info_def py_get_def update_conv')

text \<open>
  Claim C8. Take a GitHub profile with \<^verbatim>\<open>id\<close>, \<^verbatim>\<open>login\<close> and \<^verbatim>\<open>name\<close>, fetched with a
  status that \<^verbatim>\<open>raise_for_status\<close> accepts. When none of the email records is flagged
  primary, the merged \<^verbatim>\<open>email\<close> field is the empty string and the normalized email is
  \<^verbatim>\<open>{id}+{login}@users.noreply.github.com\<close>. When a record is flagged primary, the first
  such record's non-empty email is used as it is.
\<close>

theorem github_noreply_email:
  assumes "map_of user ''id'' = Some i" and "map_of user ''login'' = Some l"
    and "map_of user ''name'' = Some n" and "\<not> (400 \<le> sc \<and> sc < 600)"
  shows "((\<forall>r\<in>set recs. \<exists>kvs p. r = JDict kvs \<and> map_of kvs ''primary'' = Some p \<and> \<not> py_eq_True p) \<longrightarrow>
            GitHubOAuth_get_raw_user_info \<lparr>status_code = sc, body = Some (JDict user)\<rparr>
                \<lparr>status_code = sc', body = Some (JList recs)\<rparr> =
              Inr (JDict (AList.update ''email'' (JStr []) user)) \<and>
            GitHubOAuth_get_user_info \<lparr>status_code = sc, body = Some (JDict user)\<rparr>
                \<lparr>status_code = sc', body = Some (JList recs)\<rparr> =
              Inr \<lparr>info_id = py_str i, info_name = n,
                   info_email = JStr (py_str i @ ''+'' @ py_str l @ ''@users.noreply.github.com'')\<rparr>) \<and>
         (recs = pre @ JDict rec # post \<and>
          (\<forall>r\<in>set pre. \<exists>kvs p. r = JDict kvs \<and> map_of kvs ''primary'' = Some p \<and> \<not> py_eq_True p) \<and>
          map_of rec ''primary'' = Some q \<and> py_eq_True q \<and>
          map_of rec ''email'' = Some e \<and> py_truthy e \<longrightarrow>
            GitHubOAuth_get_user_info \<lparr>status_code = sc, body = Some (JDict user)\<rparr>
                \<lparr>status_code = sc', body = Some (JList recs)\<rparr> =
              Inr \<lparr>info_id = py_str i, info_name = n, info_email = e\<rparr>)"
proof (intro conjI impI)
  assume none: "\<forall>r\<in>set recs. \<exists>kvs p. r = JDict kvs \<and> map_of kvs ''primary'' = Some p \<and> \<not> py_eq_True p"
  then have fp: "first_primary recs = Inr (JDict [])"
    by (rule first_primary_none)
  from github_raw_user_info_merge [OF assms(4) fp]
  show raw: "GitHubOAuth_get_raw_user_info \<lparr>status_code = sc, body = Some (JDict user)\<rparr>
                \<lparr>status_code = sc', body = Some (JList recs)\<rparr> =
              Inr (JDict (AList.update ''email'' (JStr []) user))"
    by simp
  show "GitHubOAuth_get_user_info \<lparr>status_code = sc, body = Some (JDict user)\<rparr>
                \<lparr>status_code = sc', body = Some (JList recs)\<rparr> =
              Inr \<lparr>info_id = py_str i, info_name = n,
                   info_email = JStr (py_str i @ ''+'' @ py_str l @ ''@users.noreply.github.com'')\<rparr>"
    by (simp add: GitHubOAuth_get_user_info_def raw github_transform_merged [OF assms(1-3)])
next
  assume h: "recs = pre @ JDict rec # post \<and>
          (\<forall>r\<in>set pre. \<exists>kvs p. r = JDict kvs \<and> map_of kvs ''primary'' = Some p \<and> \<not> py_eq_True p) \<and>
          map_of rec ''primary'' = Some q \<and> py_eq_True q \<and>
          map_of rec ''email'' = Some e \<and> py_truthy e"
  then have fp: "first_primary recs = Inr (JDict rec)"
    using first_primary_found [of pre rec q post] by simp
  from h have e: "map_of rec ''email'' = Some e" and t: "py_truthy e"
    by simp_all
  from github_raw_user_info_merge [OF assms(4) fp] e
  have raw: "GitHubOAuth_get_raw_user_info \<lparr>status_code = sc, body = Some (JDict user)\<rparr>
                \<lparr>status_code = sc', body = Some (JList recs)\<rparr> =
              Inr (JDict (AList.update ''email'' e user))"
    by simp
  show "GitHubOAuth_get_user_info \<lparr>status_code = sc, body = Some (JDict user)\<rparr>
                \<lparr>status_code = sc', body = Some (JList recs)\<rparr> =
              Inr \<lparr>info_id = py_str i, info_name = n, info_email = e\<rparr>"
    using t by (simp add: GitHubOAuth_get_user_info_def raw github_transform_merged [OF assms(1-3)])
qed

text \<open>The octocat profile with one secondary address, and with a primary address after
  it.\<close>

theorem github_noreply_email_witness:
  "GitHubOAuth_get_user_info \<lparr>status_code = 200, body = Some (JDict octocat)\<rparr>
       \<lparr>status_code = 200,
        body = Some (JList [JDict [(''email'', JStr ''a@example.com''), (''primary'', JBool False)]])\<rparr> =
     Inr \<lparr>info_id = ''583231'', info_name = JNull,
          info_email = JStr ''583231+octocat@users.noreply.github.com''\<rparr> \<and>
   GitHubOAuth_get_user_info \<lparr>status_code = 200, body = Some (JDict octocat)\<rparr>
       \<lparr>status_code = 200,
        body = Some (JList [JDict [(''email'', JStr ''a@example.com''), (''primary'', JBool False)],
                            JDict [(''email'', JStr ''b@example.com''), (''primary'', JBool True)]])\<rparr> =
     Inr \<lparr>info_id = ''583231'', info_name = JNull, info_email = JStr ''b@example.com''\<rparr>"
proof -
  have i: "map_of octocat ''id'' = Some (JNum 583231)"
    and l: "map_of octocat ''login'' = Some (JStr ''octocat'')"
    and n: "map_of octocat ''name'' = Some JNull"
    and ok: "\<not> (400 \<le> (200::int) \<and> (200::int) < 600)"
    by (simp_all add: octocat_def)
  have s: "str_int 583231 = ''583231''"
    by (simp add: str_int_def digits.simps)
  from github_noreply_email [OF i l n ok,
      where recs = "[JDict [(''email'', JStr ''a@example.com''), (''primary'', JBool False)]]"
        and sc' = 200, THEN conjunct1]
  have none: "GitHubOAuth_get_user_info \<lparr>status_code = 200, body = Some (JDict octocat)\<rparr>
       \<lparr>status_code = 200,
        body = Some (JList [JDict [(''email'', JStr ''a@example.com''), (''primary'', JBool False)]])\<rparr> =
     Inr \<lparr>info_id = ''583231'', info_name = JNull,
          info_email = JStr ''583231+octocat@users.noreply.github.com''\<rparr>"
    by (simp add: s)
  from github_noreply_email [OF i l n ok,
      where recs = "[JDict [(''email'', JStr ''a@example.com''), (''primary'', JBool False)],
                     JDict [(''email'', JStr ''b@example.com''), (''primary'', JBool True)]]"
        and pre = "[JDict [(''email'', JStr ''a@example.com''), (''primary'', JBool False)]]"
        and rec = "[(''email'', JStr ''b@example.com''), (''primary'', JBool True)]"
        and post = "[]" and q = "JBool True" and e = "JStr ''b@example.com''" and sc' = 200,
      THEN conjunct2]
  have some: "GitHubOAuth_get_user_info \<lparr>status_code = 200, body = Some (JDict octocat)\<rparr>
       \<lparr>status_code = 200,
        body = Some (JList [JDict [(''email'', JStr ''a@example.com''), (''primary'', JBool False)],
                            JDict [(''email'', JStr ''b@example.com''), (''primary'', JBool True)]])\<rparr> =
     Inr \<lparr>info_id = ''583231'', info_name = JNull, info_email = JStr ''b@example.com''\<rparr>"
    by (simp add: s)
  from none some show ?thesis by blast
qed

subsection \<open>Failure statuses of the profile requests\<close>

lemma github_raw_user_info_status:
  "400 \<le> status_code resp \<and> status_code resp < 600 \<Longrightarrow>
   GitHubOAuth_get_raw_user_info resp email_response = Inl HTTPError"
  by (simp add: GitHubOAuth_get_raw_user_info_def raise_for_status_def)

lemma google_raw_user_info_status:
  "400 \<le> status_code resp \<and> status_code resp < 600 \<Longrightarrow>
   GoogleOAuth_get_raw_user_info resp = Inl HTTPError"
  by (simp add: GoogleOAuth_get_raw_user_info_def raise_for_status_def)

lemma ailab_raw_user_info_status:
  "status_code resp \<noteq> 200 \<Longrightarrow> AILabOAuth_get_raw_user_info resp = Inl ValueError"
  by (simp add: AILabOAuth_get_raw_user_info_def)

text \<open>
  Claim C9. \<^verbatim>\<open>get_raw_user_info\<close> should raise whenever a response it receives has a
  failure status. The three lemmas above show it for the \<^verbatim>\<open>/user\<close> request of
  GitHubOAuth, for GoogleOAuth and for AILabOAuth. The \<^verbatim>\<open>/user/emails\<close> request of
  GitHubOAuth is not checked: with status 500 and an empty list as body, the function
  returns a profile whose email is the empty string.
\<close>

theorem github_emails_status_unchecked:
  "GitHubOAuth_get_raw_user_info
     \<lparr>status_code = 200, body = Some (JDict octocat)\<rparr>
     \<lparr>status_code = 500, body = Some (JList [])\<rparr> =
   Inr (JDict [(''login'', JStr ''octocat''), (''id'', JNum 583231), (''name'', JNull),
               (''email'', JStr [])])"
  by (simp add: GitHubOAuth_get_raw_user_info_def raise_for_status_def response_json_def octocat_def)

subsection \<open>AILab profiles\<close>

text \<open>
  Claim C10. On every dict \<^verbatim>\<open>AILabOAuth._transform_user_info\<close> returns an
  \<^verbatim>\<open>OAuthUserInfo\<close> and does not raise. A missing \<^verbatim>\<open>userId\<close> gives the empty id; a missing
  \<^verbatim>\<open>displayName\<close> and \<^verbatim>\<open>username\<close> give the empty name; when \<^verbatim>\<open>email\<close> and \<^verbatim>\<open>username\<close>
  are each absent or empty, the email is \<^verbatim>\<open>@example.com\<close>.
\<close>

theorem ailab_transform_total:
  "\<exists>info. AILabOAuth_transform_user_info (JDict kvs) = Inr info \<and>
     (map_of kvs ''userId'' = None \<longrightarrow> info_id info = []) \<and>
     (map_of kvs ''displayName'' = None \<and> map_of kvs ''username'' = None \<longrightarrow>
        info_name info = JStr []) \<and>
     (map_of kvs ''email'' \<in> {None, Some (JStr [])} \<and>
      map_of kvs ''username'' \<in> {None, Some (JStr [])} \<longrightarrow>
        info_email info = JStr ''@example.com'')"
  by (auto simp: AILabOAuth_transform_user_info_def)

text \<open>A profile that holds nothing but an empty email.\<close>

theorem ailab_transform_total_witness:
  "\<exists>info. AILabOAuth_transform_user_info (JDict [(''email'', JStr [])]) = Inr info \<and>
     info_id info = [] \<and> info_name info = JStr [] \<and> info_email info = JStr ''@example.com''"
  using ailab_transform_total [of "[(''email'', JStr [])]"]
  by simp

end
